theory Spec2Isabelle
  imports Complex_Main "HOL-Library.Word"
begin

unbundle bit_operations_syntax

section \<open>Python values\<close>

text \<open>
  A Python \<open>str\<close> is a sequence of Unicode code points (surrogates included), so it is
  modelled as a list of naturals below \<open>0x110000\<close>; \<open>pystr\<close> turns an ASCII literal
  into such a list. Python integers are unbounded (\<open>int\<close>). A float is the real number it
  denotes, and an arithmetic operation on floats returns the exact result rounded to a
  float: the rounding of the runtime is a parameter \<open>rnd\<close> of the operations that compute
  with floats. Calls to the \<open>logging\<close> module have no influence on any result and are
  left out.
\<close>

type_synonym rounding = "real \<Rightarrow> real"

definition float_sub :: "rounding \<Rightarrow> real \<Rightarrow> real \<Rightarrow> real" where
  "float_sub rnd a b = rnd (a - b)"

type_synonym pystr = "nat list"
type_synonym byte = "8 word"

definition pystr :: "string \<Rightarrow> pystr" where
  "pystr s = map of_char s"

subsection \<open>str.encode('utf-8', errors='replace')\<close>

definition encode_char :: "nat \<Rightarrow> byte list" where
  "encode_char c =
     (if c < 0x80 then [of_nat c]
      else if c < 0x800 then [of_nat (0xC0 + c div 64), of_nat (0x80 + c mod 64)]
      else if 0xD800 \<le> c \<and> c \<le> 0xDFFF then [0x3F]
      else if c < 0x10000 then
        [of_nat (0xE0 + c div 4096), of_nat (0x80 + (c div 64) mod 64), of_nat (0x80 + c mod 64)]
      else
        [of_nat (0xF0 + c div 262144), of_nat (0x80 + (c div 4096) mod 64),
         of_nat (0x80 + (c div 64) mod 64), of_nat (0x80 + c mod 64)])"

definition encode_utf8 :: "pystr \<Rightarrow> byte list" where
  "encode_utf8 s = concat (map encode_char s)"

subsection \<open>hashlib.md5\<close>

text \<open>
  The digest of RFC 1321 on bytes: the message is padded with \<open>0x80\<close>, zeros up to 56
  modulo 64, and its length in bits as a 64-bit little-endian number; each block of 64
  bytes, read as sixteen little-endian 32-bit words, goes through 64 rounds.
\<close>

type_synonym u32 = "32 word"

definition md5_K :: "u32 list" where
  "md5_K =
    [0xd76aa478, 0xe8c7b756, 0x242070db, 0xc1bdceee, 0xf57c0faf, 0x4787c62a, 0xa8304613, 0xfd469501,
     0x698098d8, 0x8b44f7af, 0xffff5bb1, 0x895cd7be, 0x6b901122, 0xfd987193, 0xa679438e, 0x49b40821,
     0xf61e2562, 0xc040b340, 0x265e5a51, 0xe9b6c7aa, 0xd62f105d, 0x02441453, 0xd8a1e681, 0xe7d3fbc8,
     0x21e1cde6, 0xc33707d6, 0xf4d50d87, 0x455a14ed, 0xa9e3e905, 0xfcefa3f8, 0x676f02d9, 0x8d2a4c8a,
     0xfffa3942, 0x8771f681, 0x6d9d6122, 0xfde5380c, 0xa4beea44, 0x4bdecfa9, 0xf6bb4b60, 0xbebfbc70,
     0x289b7ec6, 0xeaa127fa, 0xd4ef3085, 0x04881d05, 0xd9d4d039, 0xe6db99e5, 0x1fa27cf8, 0xc4ac5665,
     0xf4292244, 0x432aff97, 0xab9423a7, 0xfc93a039, 0x655b59c3, 0x8f0ccc92, 0xffeff47d, 0x85845dd1,
     0x6fa87e4f, 0xfe2ce6e0, 0xa3014314, 0x4e0811a1, 0xf7537e82, 0xbd3af235, 0x2ad7d2bb, 0xeb86d391]"

definition md5_s :: "nat list" where
  "md5_s =
    [7, 12, 17, 22, 7, 12, 17, 22, 7, 12, 17, 22, 7, 12, 17, 22,
     5, 9, 14, 20, 5, 9, 14, 20, 5, 9, 14, 20, 5, 9, 14, 20,
     4, 11, 16, 23, 4, 11, 16, 23, 4, 11, 16, 23, 4, 11, 16, 23,
     6, 10, 15, 21, 6, 10, 15, 21, 6, 10, 15, 21, 6, 10, 15, 21]"

definition rotl32 :: "u32 \<Rightarrow> nat \<Rightarrow> u32" where
  "rotl32 x n = push_bit n x OR drop_bit (32 - n) x"

definition le_bytes :: "nat \<Rightarrow> 'a::len word \<Rightarrow> byte list" where
  "le_bytes k w = map (\<lambda>i. ucast (drop_bit (8 * i) w)) [0..<k]"

definition md5_pad :: "byte list \<Rightarrow> byte list" where
  "md5_pad msg =
     msg @ [0x80] @ replicate ((119 - length msg mod 64) mod 64) 0
         @ le_bytes 8 (of_nat (8 * length msg) :: 64 word)"

definition le_word :: "byte list \<Rightarrow> u32" where
  "le_word bs = foldr (\<lambda>b acc. push_bit 8 acc + ucast b) bs 0"

fun md5_words :: "nat \<Rightarrow> byte list \<Rightarrow> u32 list" where
  "md5_words 0 bs = []"
| "md5_words (Suc k) bs = le_word (take 4 bs) # md5_words k (drop 4 bs)"

type_synonym md5_state = "u32 \<times> u32 \<times> u32 \<times> u32"

definition md5_round :: "u32 list \<Rightarrow> md5_state \<Rightarrow> nat \<Rightarrow> md5_state" where
  "md5_round M st i =
     (case st of (A, B, C, D) \<Rightarrow>
        let (F, g) =
              (if i < 16 then ((B AND C) OR (NOT B AND D), i)
               else if i < 32 then ((D AND B) OR (NOT D AND C), (5 * i + 1) mod 16)
               else if i < 48 then (B XOR C XOR D, (3 * i + 5) mod 16)
               else (C XOR (B OR NOT D), (7 * i) mod 16));
            F' = F + A + md5_K ! i + M ! g
        in (D, B + rotl32 F' (md5_s ! i), B, C))"

definition md5_block :: "md5_state \<Rightarrow> byte list \<Rightarrow> md5_state" where
  "md5_block st blk =
     (case st of (a0, b0, c0, d0) \<Rightarrow>
        case foldl (md5_round (md5_words 16 blk)) st [0..<64] of
          (A, B, C, D) \<Rightarrow> (a0 + A, b0 + B, c0 + C, d0 + D))"

fun md5_blocks :: "nat \<Rightarrow> md5_state \<Rightarrow> byte list \<Rightarrow> md5_state" where
  "md5_blocks 0 st bs = st"
| "md5_blocks (Suc k) st bs = md5_blocks k (md5_block st (take 64 bs)) (drop 64 bs)"

definition md5 :: "byte list \<Rightarrow> byte list" where
  "md5 msg =
     (let p = md5_pad msg in
      case md5_blocks (length p div 64) (0x67452301, 0xefcdab89, 0x98badcfe, 0x10325476) p of
        (a, b, c, d) \<Rightarrow> concat (map (le_bytes 4) [a, b, c, d]))"

subsection \<open>int.from_bytes(..., byteorder='big', signed=False)\<close>

definition from_bytes_big :: "byte list \<Rightarrow> int" where
  "from_bytes_big bs = foldl (\<lambda>acc b. acc * 256 + uint b) 0 bs"

subsection \<open>str(int)\<close>

fun str_nat :: "nat \<Rightarrow> pystr" where
  "str_nat n = (if n < 10 then [48 + n] else str_nat (n div 10) @ [48 + n mod 10])"

definition str_int :: "int \<Rightarrow> pystr" where
  "str_int i = (if i < 0 then 45 # str_nat (nat (- i)) else str_nat (nat i))"

subsection \<open>JSON-like values, truthiness, exceptions\<close>

datatype py =
    PyNone
  | PyBool bool
  | PyInt int
  | PyFloat real
  | PyStr pystr
  | PyList "py list"
  | PyDict "(pystr \<times> py) list"

fun truthy :: "py \<Rightarrow> bool" where
  "truthy PyNone = False"
| "truthy (PyBool b) = b"
| "truthy (PyInt i) = (i \<noteq> 0)"
| "truthy (PyFloat x) = (x \<noteq> 0)"
| "truthy (PyStr s) = (s \<noteq> [])"
| "truthy (PyList xs) = (xs \<noteq> [])"
| "truthy (PyDict kvs) = (kvs \<noteq> [])"

datatype error =
    AttributeError
  | TypeError
  | ValueError
  | IndexError
  | ImportError
  | JSONDecodeError
  | BackendError string
  | EngineError string
  | NoEmbeddingLibrary
  | BothFailed error error
  | FailedToInitialize error

text \<open>
  \<open>json.loads\<close> belongs to the standard library; its parser is a parameter
  \<open>loads\<close> of the operations that call it. Applied to anything that is not a string
  (there are no bytes among the values above) it raises \<open>TypeError\<close>.
\<close>

type_synonym json_parser = "pystr \<Rightarrow> error + py"

definition json_loads :: "json_parser \<Rightarrow> py \<Rightarrow> error + py" where
  "json_loads loads v = (case v of PyStr s \<Rightarrow> loads s | _ \<Rightarrow> Inl TypeError)"

section \<open>Data model\<close>

text \<open>
  Modelled from the spec: \<open>DocumentChunk\<close> (module \<open>src.document_processing.doc_processor\<close>)
  is not among the sources; its fields are those of section 3 of the specification, which
  are also the attributes \<open>EmbeddedChunk.to_vector_db_format\<close> reads.
\<close>

record DocumentChunk =
  chunk_id :: pystr
  content :: pystr
  source_file :: pystr
  source_type :: pystr
  page_number :: "int option"
  chunk_index :: int
  start_char :: "int option"
  end_char :: "int option"
  metadata :: py

type_synonym vector = "real list"

record EmbeddedChunk =
  chunk :: DocumentChunk
  embedding :: vector
  embedding_model :: pystr

text \<open>The dictionary built by \<open>to_vector_db_format\<close>; every key is always present.\<close>

record chunk_data =
  cd_id :: pystr
  cd_vector :: vector
  cd_content :: pystr
  cd_source_file :: pystr
  cd_source_type :: pystr
  cd_page_number :: "int option"
  cd_chunk_index :: int
  cd_start_char :: "int option"
  cd_end_char :: "int option"
  cd_metadata :: py
  cd_embedding_model :: pystr

definition to_vector_db_format :: "EmbeddedChunk \<Rightarrow> chunk_data" where
  "to_vector_db_format self =
     \<lparr>cd_id = chunk_id (chunk self),
      cd_vector = embedding self,
      cd_content = content (chunk self),
      cd_source_file = source_file (chunk self),
      cd_source_type = source_type (chunk self),
      cd_page_number = page_number (chunk self),
      cd_chunk_index = chunk_index (chunk self),
      cd_start_char = start_char (chunk self),
      cd_end_char = end_char (chunk self),
      cd_metadata = metadata (chunk self),
      cd_embedding_model = embedding_model self\<rparr>"

text \<open>
  The payload of a stored point is a dictionary. The code reads and writes ten keys of it;
  a field is \<open>None\<close> when the key is missing, as for a point that some other writer stored.
\<close>

record payload =
  pl_content :: "pystr option"
  pl_source_file :: "pystr option"
  pl_source_type :: "pystr option"
  pl_page_number :: "int option"
  pl_chunk_index :: "int option"
  pl_start_char :: "int option"
  pl_end_char :: "int option"
  pl_embedding_model :: "pystr option"
  pl_metadata :: "py option"
  pl_original_id :: "pystr option"

record PointStruct =
  ps_id :: int
  ps_vector :: vector
  ps_payload :: "payload option"

text \<open>What \<open>retrieve\<close> returns for a point (\<open>Record\<close>) and what \<open>query_points\<close> returns
  (\<open>ScoredPoint\<close> inside a \<open>QueryResponse\<close>); an attribute the code tests with \<open>hasattr\<close>
  is an option.\<close>

record Record =
  rec_id :: int
  rec_payload :: "payload option"
  rec_vector :: "vector option"

record ScoredPoint =
  sp_id :: int
  sp_score :: "real option"
  sp_payload :: "payload option"

record QueryResponse =
  qr_points :: "ScoredPoint list option"

datatype query_filter = Filter pystr

section \<open>The vector engine\<close>

text \<open>
  Modelled from the spec: the engine behind \<open>qdrant_client.QdrantClient\<close> is an external
  collaborator. Sections 3, 4.2 and 7 of the specification fix what the store relies on: a
  named collection has a fixed vector size; upsert replaces a point whose key already
  exists (last write wins); a vector of another size is an engine-level error; retrieval
  by key returns the stored point; any call may fail (connectivity). The field
  \<open>fails\<close> says which calls raise, \<open>respond\<close> is the engine's answer to a
  nearest-neighbour query, and \<open>calls\<close> records every request the engine receives.
\<close>

datatype engine_call =
    GetCollections
  | CreateCollection pystr nat
  | DeleteCollection pystr
  | Upsert pystr "PointStruct list"
  | Retrieve pystr "int list" bool bool
  | QueryPoints pystr vector "query_filter option" int

record collection =
  vectors_size :: nat
  points :: "int \<rightharpoonup> PointStruct"

record QdrantClient =
  collections :: "pystr \<rightharpoonup> collection"
  fails :: "engine_call \<Rightarrow> error option"
  respond :: "pystr \<Rightarrow> vector \<Rightarrow> query_filter option \<Rightarrow> int \<Rightarrow> QueryResponse"
  calls :: "engine_call list"

definition request :: "QdrantClient \<Rightarrow> engine_call \<Rightarrow> QdrantClient" where
  "request c call = c\<lparr>calls := calls c @ [call]\<rparr>"

definition get_collections :: "QdrantClient \<Rightarrow> (error + pystr set) \<times> QdrantClient" where
  "get_collections c =
     (case fails c GetCollections of
        Some e \<Rightarrow> (Inl e, request c GetCollections)
      | None \<Rightarrow> (Inr (dom (collections c)), request c GetCollections))"

definition create_collection ::
  "QdrantClient \<Rightarrow> pystr \<Rightarrow> nat \<Rightarrow> (error + unit) \<times> QdrantClient" where
  "create_collection c name n =
     (let c' = request c (CreateCollection name n) in
      case fails c (CreateCollection name n) of
        Some e \<Rightarrow> (Inl e, c')
      | None \<Rightarrow>
          (case collections c name of
             Some _ \<Rightarrow> (Inl (EngineError ''collection already exists''), c')
           | None \<Rightarrow>
               (Inr (),
                c'\<lparr>collections :=
                     (collections c)(name \<mapsto> \<lparr>vectors_size = n, points = Map.empty\<rparr>)\<rparr>)))"

definition delete_collection_call ::
  "QdrantClient \<Rightarrow> pystr \<Rightarrow> (error + unit) \<times> QdrantClient" where
  "delete_collection_call c name =
     (let c' = request c (DeleteCollection name) in
      case fails c (DeleteCollection name) of
        Some e \<Rightarrow> (Inl e, c')
      | None \<Rightarrow> (Inr (), c'\<lparr>collections := (collections c)(name := None)\<rparr>))"

definition store_points :: "(int \<rightharpoonup> PointStruct) \<Rightarrow> PointStruct list \<Rightarrow> (int \<rightharpoonup> PointStruct)" where
  "store_points m pts = foldl (\<lambda>m p. m(ps_id p \<mapsto> p)) m pts"

definition upsert ::
  "QdrantClient \<Rightarrow> pystr \<Rightarrow> PointStruct list \<Rightarrow> (error + unit) \<times> QdrantClient" where
  "upsert c name pts =
     (let c' = request c (Upsert name pts) in
      case fails c (Upsert name pts) of
        Some e \<Rightarrow> (Inl e, c')
      | None \<Rightarrow>
          (case collections c name of
             None \<Rightarrow> (Inl (EngineError ''collection not found''), c')
           | Some col \<Rightarrow>
               if list_all (\<lambda>p. length (ps_vector p) = vectors_size col) pts
               then (Inr (),
                     c'\<lparr>collections :=
                          (collections c)(name \<mapsto> col\<lparr>points := store_points (points col) pts\<rparr>)\<rparr>)
               else (Inl (EngineError ''vector dimension error''), c')))"

definition to_record :: "bool \<Rightarrow> bool \<Rightarrow> PointStruct \<Rightarrow> Record" where
  "to_record with_payload with_vectors p =
     \<lparr>rec_id = ps_id p,
      rec_payload = (if with_payload then ps_payload p else None),
      rec_vector = (if with_vectors then Some (ps_vector p) else None)\<rparr>"

definition retrieve ::
  "QdrantClient \<Rightarrow> pystr \<Rightarrow> int list \<Rightarrow> bool \<Rightarrow> bool \<Rightarrow> (error + Record list) \<times> QdrantClient" where
  "retrieve c name ids with_payload with_vectors =
     (let c' = request c (Retrieve name ids with_payload with_vectors) in
      case fails c (Retrieve name ids with_payload with_vectors) of
        Some e \<Rightarrow> (Inl e, c')
      | None \<Rightarrow>
          (case collections c name of
             None \<Rightarrow> (Inl (EngineError ''collection not found''), c')
           | Some col \<Rightarrow>
               (Inr (map (to_record with_payload with_vectors)
                       (List.map_filter (points col) ids)), c')))"

definition query_points ::
  "QdrantClient \<Rightarrow> pystr \<Rightarrow> vector \<Rightarrow> query_filter option \<Rightarrow> int
     \<Rightarrow> (error + QueryResponse) \<times> QdrantClient" where
  "query_points c name query flt limit =
     (let c' = request c (QueryPoints name query flt limit) in
      case fails c (QueryPoints name query flt limit) of
        Some e \<Rightarrow> (Inl e, c')
      | None \<Rightarrow>
          (case collections c name of
             None \<Rightarrow> (Inl (EngineError ''collection not found''), c')
           | Some col \<Rightarrow> (Inr (respond c name query flt limit), c')))"

section \<open>QdrantVectorDB\<close>

record QdrantVectorDB =
  db_path :: pystr
  collection_name :: pystr
  db_embedding_dim :: nat
  client :: QdrantClient
  collection_exists :: bool
  url :: "pystr option"
  api_key :: "pystr option"

text \<open>\<open>_setup_collection\<close> (\<open>qdrant_vector_db.py\<close>, lines 54 to 80): reuse the named
  collection when the engine lists it, create it otherwise; any exception propagates.\<close>

definition setup_collection :: "QdrantVectorDB \<Rightarrow> (error + unit) \<times> QdrantVectorDB" where
  "setup_collection self =
     (case get_collections (client self) of
        (Inl e, c1) \<Rightarrow> (Inl e, self\<lparr>client := c1\<rparr>)
      | (Inr collection_names, c1) \<Rightarrow>
          if collection_name self \<in> collection_names
          then (Inr (), self\<lparr>client := c1, collection_exists := True\<rparr>)
          else
            (case create_collection c1 (collection_name self) (db_embedding_dim self) of
               (Inl e, c2) \<Rightarrow> (Inl e, self\<lparr>client := c2\<rparr>)
             | (Inr _, c2) \<Rightarrow> (Inr (), self\<lparr>client := c2, collection_exists := True\<rparr>)))"

text \<open>The constructor; \<open>connect\<close> stands for the creation of the engine's client, remote
  when a non-empty \<open>url\<close> is given and local otherwise.\<close>

definition QdrantVectorDB_init ::
  "(pystr \<times> pystr option + pystr \<Rightarrow> error + QdrantClient) \<Rightarrow> pystr \<Rightarrow> pystr \<Rightarrow> nat
     \<Rightarrow> pystr option \<Rightarrow> pystr option \<Rightarrow> error + QdrantVectorDB" where
  "QdrantVectorDB_init connect path name n u key =
     (case (case u of
              Some a \<Rightarrow> if a \<noteq> [] then connect (Inl (a, key)) else connect (Inr path)
            | None \<Rightarrow> connect (Inr path)) of
        Inl e \<Rightarrow> Inl e
      | Inr c \<Rightarrow>
          (case setup_collection
                  \<lparr>db_path = path, collection_name = name, db_embedding_dim = n, client = c,
                   collection_exists = False, url = u, api_key = key\<rparr> of
             (Inl e, _) \<Rightarrow> Inl e
           | (Inr _, self) \<Rightarrow> Inr self))"

text \<open>\<open>_string_id_to_int\<close> (lines 82 to 94). The instance is an argument, as \<open>self\<close> is in
  the source; the body does not read it.\<close>

definition string_id_to_int :: "QdrantVectorDB \<Rightarrow> pystr \<Rightarrow> int" where
  "string_id_to_int self string_id =
     (let hash_bytes = take 8 (md5 (encode_utf8 string_id));
          int_id = from_bytes_big hash_bytes
      in int_id mod (2 ^ 63 - 1))"

text \<open>\<open>insert_embeddings\<close> (lines 115 to 170). An optional number that is absent is stored as
  \<open>-1\<close>; the readers turn a stored \<open>-1\<close> back into the absent value. The body of the loop
  over the chunks is \<open>build_point\<close>; the \<open>try\<close> around \<open>json.loads\<close> is the case
  distinction on its outcome.\<close>

definition sentinel :: "int option \<Rightarrow> int" where
  "sentinel v = (case v of Some n \<Rightarrow> n | None \<Rightarrow> - 1)"

definition unsentinel :: "int option \<Rightarrow> int option" where
  "unsentinel v = (case v of Some n \<Rightarrow> if n \<noteq> - 1 then Some n else None | None \<Rightarrow> None)"

definition build_payload :: "json_parser \<Rightarrow> chunk_data \<Rightarrow> payload" where
  "build_payload loads cd =
     \<lparr>pl_content = Some (cd_content cd),
      pl_source_file = Some (cd_source_file cd),
      pl_source_type = Some (cd_source_type cd),
      pl_page_number = Some (sentinel (cd_page_number cd)),
      pl_chunk_index = Some (cd_chunk_index cd),
      pl_start_char = Some (sentinel (cd_start_char cd)),
      pl_end_char = Some (sentinel (cd_end_char cd)),
      pl_embedding_model = Some (cd_embedding_model cd),
      pl_metadata =
        (if truthy (cd_metadata cd) then
           (case cd_metadata cd of
              PyDict d \<Rightarrow> Some (PyDict d)
            | m \<Rightarrow> (case json_loads loads m of Inr v \<Rightarrow> Some v | Inl _ \<Rightarrow> Some (PyDict [])))
         else None),
      pl_original_id = Some (cd_id cd)\<rparr>"

definition build_point :: "json_parser \<Rightarrow> QdrantVectorDB \<Rightarrow> EmbeddedChunk \<Rightarrow> PointStruct" where
  "build_point loads self embedded_chunk =
     (let cd = to_vector_db_format embedded_chunk in
      \<lparr>ps_id = string_id_to_int self (cd_id cd),
       ps_vector = cd_vector cd,
       ps_payload = Some (build_payload loads cd)\<rparr>)"

definition insert_embeddings ::
  "json_parser \<Rightarrow> QdrantVectorDB \<Rightarrow> EmbeddedChunk list \<Rightarrow> (error + int list) \<times> QdrantVectorDB" where
  "insert_embeddings loads self embedded_chunks =
     (if embedded_chunks = [] then (Inr [], self)
      else
        let pts = map (build_point loads self) embedded_chunks in
        case upsert (client self) (collection_name self) pts of
          (Inl e, c') \<Rightarrow> (Inl e, self\<lparr>client := c'\<rparr>)
        | (Inr _, c') \<Rightarrow> (Inr (map ps_id pts), self\<lparr>client := c'\<rparr>))"

text \<open>\<open>search\<close> (lines 172 to 231). The filter expression is accepted and, apart from a
  logged warning, not used; \<open>query_filter\<close> is always \<open>None\<close>. A \<open>payload.get(k, d)\<close> is
  \<open>get_or\<close>. The score of a result is the float subtraction \<open>1 - score\<close>; nothing clamps
  or sorts the scores. An exception raised while a point is formatted propagates.\<close>

record Citation =
  cit_source_file :: pystr
  cit_source_type :: pystr
  cit_page_number :: "int option"
  cit_chunk_index :: int
  cit_start_char :: "int option"
  cit_end_char :: "int option"

record search_result =
  sr_id :: pystr
  sr_score :: real
  sr_content :: pystr
  sr_citation :: Citation
  sr_metadata :: py
  sr_embedding_model :: pystr

definition get_or :: "'a option \<Rightarrow> 'a \<Rightarrow> 'a" where
  "get_or v d = (case v of Some x \<Rightarrow> x | None \<Rightarrow> d)"

definition format_result :: "rounding \<Rightarrow> ScoredPoint \<Rightarrow> error + search_result" where
  "format_result rnd point =
     (case sp_payload point of
        None \<Rightarrow> Inl AttributeError
      | Some pl \<Rightarrow>
          let original_id = get_or (pl_original_id pl) (str_int (sp_id point));
              score = get_or (sp_score point) 0
          in Inr \<lparr>sr_id = original_id,
                  sr_score = float_sub rnd 1 score,
                  sr_content = get_or (pl_content pl) [],
                  sr_citation =
                    \<lparr>cit_source_file = get_or (pl_source_file pl) [],
                     cit_source_type = get_or (pl_source_type pl) [],
                     cit_page_number = unsentinel (pl_page_number pl),
                     cit_chunk_index = get_or (pl_chunk_index pl) 0,
                     cit_start_char = unsentinel (pl_start_char pl),
                     cit_end_char = unsentinel (pl_end_char pl)\<rparr>,
                  sr_metadata = get_or (pl_metadata pl) (PyDict []),
                  sr_embedding_model = get_or (pl_embedding_model pl) []\<rparr>)"

fun format_results :: "rounding \<Rightarrow> ScoredPoint list \<Rightarrow> error + search_result list" where
  "format_results rnd [] = Inr []"
| "format_results rnd (point # rest) =
     (case format_result rnd point of
        Inl e \<Rightarrow> Inl e
      | Inr r \<Rightarrow>
          (case format_results rnd rest of Inl e \<Rightarrow> Inl e | Inr rs \<Rightarrow> Inr (r # rs)))"

definition search ::
  "rounding \<Rightarrow> QdrantVectorDB \<Rightarrow> vector \<Rightarrow> int \<Rightarrow> pystr option
     \<Rightarrow> (error + search_result list) \<times> QdrantVectorDB" where
  "search rnd self query_vector limit filter_expr =
     (let query_filter = None in
      case query_points (client self) (collection_name self) query_vector query_filter limit of
        (Inl e, c') \<Rightarrow> (Inl e, self\<lparr>client := c'\<rparr>)
      | (Inr search_results, c') \<Rightarrow>
          (format_results rnd (get_or (qr_points search_results) []),
           self\<lparr>client := c'\<rparr>))"

text \<open>\<open>delete_collection\<close> (lines 233 to 244).\<close>

definition delete_collection :: "QdrantVectorDB \<Rightarrow> (error + unit) \<times> QdrantVectorDB" where
  "delete_collection self =
     (if collection_exists self then
        (case delete_collection_call (client self) (collection_name self) of
           (Inl e, c') \<Rightarrow> (Inl e, self\<lparr>client := c'\<rparr>)
         | (Inr _, c') \<Rightarrow> (Inr (), self\<lparr>client := c', collection_exists := False\<rparr>))
      else (Inr (), self))"

text \<open>\<open>get_chunk_by_id\<close> (lines 246 to 297) and the dictionary it returns.\<close>

record chunk_view =
  cv_id :: pystr
  cv_content :: pystr
  cv_metadata :: py
  cv_source_file :: pystr
  cv_source_type :: pystr
  cv_page_number :: "int option"
  cv_chunk_index :: int

definition read_metadata :: "json_parser \<Rightarrow> payload \<Rightarrow> py" where
  "read_metadata loads pl =
     (case get_or (pl_metadata pl) (PyDict []) of
        PyStr s \<Rightarrow> (case json_loads loads (PyStr s) of Inr v \<Rightarrow> v | Inl _ \<Rightarrow> PyDict [])
      | m \<Rightarrow> m)"

text \<open>The body of the \<open>try\<close> block of \<open>get_chunk_by_id\<close>, with what it can raise.\<close>

definition get_chunk_by_id_try ::
  "json_parser \<Rightarrow> QdrantVectorDB \<Rightarrow> pystr \<Rightarrow> (error + chunk_view option) \<times> QdrantVectorDB" where
  "get_chunk_by_id_try loads self cid =
     (if \<not> collection_exists self then (Inr None, self)
      else
        let point_id = string_id_to_int self cid in
        case retrieve (client self) (collection_name self) [point_id] True False of
          (Inl e, c') \<Rightarrow> (Inl e, self\<lparr>client := c'\<rparr>)
        | (Inr results, c') \<Rightarrow>
            (case results of
               [] \<Rightarrow> (Inr None, self\<lparr>client := c'\<rparr>)
             | result # _ \<Rightarrow>
                 (case rec_payload result of
                    None \<Rightarrow> (Inl AttributeError, self\<lparr>client := c'\<rparr>)
                  | Some pl \<Rightarrow>
                      (Inr (Some
                         \<lparr>cv_id = get_or (pl_original_id pl) (str_int (rec_id result)),
                          cv_content = get_or (pl_content pl) [],
                          cv_metadata = read_metadata loads pl,
                          cv_source_file = get_or (pl_source_file pl) [],
                          cv_source_type = get_or (pl_source_type pl) [],
                          cv_page_number = unsentinel (pl_page_number pl),
                          cv_chunk_index = get_or (pl_chunk_index pl) 0\<rparr>),
                       self\<lparr>client := c'\<rparr>))))"

definition get_chunk_by_id ::
  "json_parser \<Rightarrow> QdrantVectorDB \<Rightarrow> pystr \<Rightarrow> (error + chunk_view option) \<times> QdrantVectorDB" where
  "get_chunk_by_id loads self cid =
     (case get_chunk_by_id_try loads self cid of
        (Inl e, self') \<Rightarrow> (Inr None, self')
      | (Inr r, self') \<Rightarrow> (Inr r, self'))"

section \<open>EmbeddingGenerator\<close>

text \<open>
  A model backend (fastembed's \<open>TextEmbedding\<close>, a \<open>SentenceTransformer\<close>, or the
  mean-pooling wrapper) is an external library object. It is a handle with the methods the
  code calls, each a function from the texts to the vectors or to the exception raised;
  a method the object does not have is \<open>None\<close>.
\<close>

type_synonym backend = "pystr list \<Rightarrow> error + vector list"

record model_handle =
  embed :: "backend option"
  encode :: "backend option"

definition call_embed :: "model_handle \<Rightarrow> pystr list \<Rightarrow> error + vector list" where
  "call_embed m texts = (case embed m of Some f \<Rightarrow> f texts | None \<Rightarrow> Inl AttributeError)"

definition call_encode :: "model_handle \<Rightarrow> pystr list \<Rightarrow> error + vector list" where
  "call_encode m texts = (case encode m of Some f \<Rightarrow> f texts | None \<Rightarrow> Inl AttributeError)"

record EmbeddingGenerator =
  model_name :: pystr
  model :: model_handle
  embedding_dim :: nat
  use_fastembed :: bool

text \<open>What the host offers to \<open>_initialize_model\<close>: which libraries were imported, and
  the outcome of each constructor and download it may call.\<close>

record environment =
  FASTEMBED_AVAILABLE :: bool
  SENTENCE_TRANSFORMERS_AVAILABLE :: bool
  TRANSFORMERS_AVAILABLE :: bool
  platform_system :: pystr
  TextEmbedding :: "nat \<Rightarrow> pystr \<Rightarrow> error + model_handle"
  import_transformers :: "error option"
  local_model_path :: pystr
  local_model_present :: bool
  snapshot_download :: "pystr \<Rightarrow> pystr \<Rightarrow> error option"
  SentenceTransformer :: "pystr \<Rightarrow> error + model_handle"
  EmbeddingWrapper :: "pystr \<Rightarrow> error + model_handle"

text \<open>\<open>_initialize_model\<close> (\<open>embedding_generator.py\<close>, lines 66 to 209): fastembed is tried
  twice, then sentence-transformers (a local copy, a download, a load by name), then the
  bare transformer with mean pooling. Every path that succeeds ends in a probe of the
  model on the single text \<open>test\<close>, and the length of the first vector returned becomes
  \<open>embedding_dim\<close>.\<close>

definition first_len :: "error + vector list \<Rightarrow> error + nat" where
  "first_len r =
     (case r of Inl e \<Rightarrow> Inl e | Inr [] \<Rightarrow> Inl IndexError | Inr (v # _) \<Rightarrow> Inr (length v))"

definition try_fastembed :: "environment \<Rightarrow> pystr \<Rightarrow> nat \<Rightarrow> error + EmbeddingGenerator" where
  "try_fastembed env name attempt =
     (case TextEmbedding env attempt name of
        Inl e \<Rightarrow> Inl e
      | Inr m \<Rightarrow>
          (case first_len (call_embed m [pystr ''test'']) of
             Inl e \<Rightarrow> Inl e
           | Inr d \<Rightarrow>
               Inr \<lparr>model_name = name, model = m, embedding_dim = d, use_fastembed = True\<rparr>))"

fun fastembed_loop :: "environment \<Rightarrow> pystr \<Rightarrow> nat list \<Rightarrow> EmbeddingGenerator option" where
  "fastembed_loop env name [] = None"
| "fastembed_loop env name (attempt # rest) =
     (case try_fastembed env name attempt of
        Inr g \<Rightarrow> Some g
      | Inl e \<Rightarrow> fastembed_loop env name rest)"

definition st_model_name :: pystr where
  "st_model_name = pystr ''sentence-transformers/all-MiniLM-L6-v2''"

definition probe_encode :: "model_handle \<Rightarrow> error + EmbeddingGenerator" where
  "probe_encode m =
     (case first_len (call_encode m [pystr ''test'']) of
        Inl e \<Rightarrow> Inl e
      | Inr d \<Rightarrow>
          Inr \<lparr>model_name = st_model_name, model = m, embedding_dim = d, use_fastembed = False\<rparr>)"

definition try_sentence_transformer :: "environment \<Rightarrow> error + EmbeddingGenerator" where
  "try_sentence_transformer env =
     (if SENTENCE_TRANSFORMERS_AVAILABLE env then
        (case (if local_model_present env then SentenceTransformer env (local_model_path env)
               else
                 (case (case snapshot_download env st_model_name (local_model_path env) of
                          Some e \<Rightarrow> Inl e
                        | None \<Rightarrow> SentenceTransformer env (local_model_path env)) of
                    Inl download_error \<Rightarrow> SentenceTransformer env st_model_name
                  | Inr m \<Rightarrow> Inr m)) of
           Inl e \<Rightarrow> Inl e
         | Inr m \<Rightarrow> probe_encode m)
      else Inl ImportError)"

definition try_transformers :: "environment \<Rightarrow> error + EmbeddingGenerator" where
  "try_transformers env =
     (case EmbeddingWrapper env st_model_name of
        Inl e \<Rightarrow> Inl e
      | Inr m \<Rightarrow> probe_encode m)"

definition initialize_model :: "environment \<Rightarrow> pystr \<Rightarrow> bool \<Rightarrow> error + EmbeddingGenerator" where
  "initialize_model env name fastembed =
     (case (if fastembed then fastembed_loop env name [0..<2] else None) of
        Some g \<Rightarrow> Inr g
      | None \<Rightarrow>
          if SENTENCE_TRANSFORMERS_AVAILABLE env \<or> TRANSFORMERS_AVAILABLE env then
            (case import_transformers env of
               Some e \<Rightarrow> Inl (FailedToInitialize e)
             | None \<Rightarrow>
                 (case try_sentence_transformer env of
                    Inr g \<Rightarrow> Inr g
                  | Inl e \<Rightarrow>
                      (case try_transformers env of
                         Inr g \<Rightarrow> Inr g
                       | Inl fallback_error \<Rightarrow>
                           Inl (FailedToInitialize (BothFailed e fallback_error)))))
          else Inl NoEmbeddingLibrary)"

definition EmbeddingGenerator_init ::
  "environment \<Rightarrow> pystr \<Rightarrow> bool option \<Rightarrow> error + EmbeddingGenerator" where
  "EmbeddingGenerator_init env name fastembed =
     (let requested =
            (case fastembed of
               None \<Rightarrow> platform_system env \<noteq> pystr ''Windows''
             | Some b \<Rightarrow> b)
      in initialize_model env name (requested \<and> FASTEMBED_AVAILABLE env))"

text \<open>\<open>generate_embeddings\<close> (lines 211 to 243), \<open>get_embedding_dimension\<close> (lines 261 and
  262) and \<open>batch_generate_embeddings\<close> (lines 264 to 282). The conversion of a vector to
  32-bit floats keeps its length and is the identity on the reals that stand for floats;
  \<open>zip\<close> stops at the shorter of its two lists.\<close>

definition run_model :: "EmbeddingGenerator \<Rightarrow> pystr list \<Rightarrow> error + vector list" where
  "run_model self texts =
     (if use_fastembed self then call_embed (model self) texts
      else call_encode (model self) texts)"

definition generate_embeddings ::
  "EmbeddingGenerator \<Rightarrow> DocumentChunk list \<Rightarrow> error + EmbeddedChunk list" where
  "generate_embeddings self chunks =
     (if chunks = [] then Inr []
      else
        let texts = map content chunks in
        case run_model self texts of
          Inl e \<Rightarrow> Inl e
        | Inr embeddings \<Rightarrow>
            Inr (map (\<lambda>(c, e). \<lparr>chunk = c, embedding = e, embedding_model = model_name self\<rparr>)
                   (zip chunks embeddings)))"

definition get_embedding_dimension :: "EmbeddingGenerator \<Rightarrow> nat" where
  "get_embedding_dimension self = embedding_dim self"

text \<open>\<open>range(0, n, step)\<close>: a zero step raises, a negative one gives the empty range.\<close>

definition range_step :: "nat \<Rightarrow> int \<Rightarrow> error + nat list" where
  "range_step n step =
     (if step = 0 then Inl ValueError
      else if step < 0 then Inr []
      else Inr (map (\<lambda>k. k * nat step) [0..<(n + nat step - 1) div nat step]))"

text \<open>The slice \<open>xs[i:j]\<close> for indices that are not negative.\<close>

definition slice :: "'a list \<Rightarrow> nat \<Rightarrow> nat \<Rightarrow> 'a list" where
  "slice xs i j = drop i (take j xs)"

definition sub_batches :: "DocumentChunk list \<Rightarrow> int \<Rightarrow> error + DocumentChunk list list" where
  "sub_batches chunk_batch batch_size =
     (case range_step (length chunk_batch) batch_size of
        Inl e \<Rightarrow> Inl e
      | Inr js \<Rightarrow> Inr (map (\<lambda>j. slice chunk_batch j (j + nat batch_size)) js))"

fun embed_sub_batches ::
  "EmbeddingGenerator \<Rightarrow> DocumentChunk list list \<Rightarrow> error + EmbeddedChunk list" where
  "embed_sub_batches self [] = Inr []"
| "embed_sub_batches self (sub_batch # rest) =
     (case generate_embeddings self sub_batch of
        Inl e \<Rightarrow> Inl e
      | Inr embedded_sub_batch \<Rightarrow>
          (case embed_sub_batches self rest of
             Inl e \<Rightarrow> Inl e
           | Inr embedded_rest \<Rightarrow> Inr (embedded_sub_batch @ embedded_rest)))"

definition embed_batch ::
  "EmbeddingGenerator \<Rightarrow> int \<Rightarrow> DocumentChunk list \<Rightarrow> error + EmbeddedChunk list" where
  "embed_batch self batch_size chunk_batch =
     (case sub_batches chunk_batch batch_size of
        Inl e \<Rightarrow> Inl e
      | Inr subs \<Rightarrow> embed_sub_batches self subs)"

fun batch_generate_embeddings ::
  "EmbeddingGenerator \<Rightarrow> DocumentChunk list list \<Rightarrow> int \<Rightarrow> error + EmbeddedChunk list list" where
  "batch_generate_embeddings self [] batch_size = Inr []"
| "batch_generate_embeddings self (chunk_batch # rest) batch_size =
     (case embed_batch self batch_size chunk_batch of
        Inl e \<Rightarrow> Inl e
      | Inr embedded_batch \<Rightarrow>
          (case batch_generate_embeddings self rest batch_size of
             Inl e \<Rightarrow> Inl e
           | Inr embedded_rest \<Rightarrow> Inr (embedded_batch # embedded_rest)))"

text \<open>An embedded batch comes from a chunk batch by delegation when it is the concatenation
  of what \<open>generate_embeddings\<close> returns on the sub-batches of the chunk batch, in order.\<close>

abbreviation delegated ::
  "EmbeddingGenerator \<Rightarrow> int \<Rightarrow> DocumentChunk list \<Rightarrow> EmbeddedChunk list \<Rightarrow> bool" where
  "delegated self batch_size chunk_batch embedded_batch \<equiv>
     (\<exists>subs outs. sub_batches chunk_batch batch_size = Inr subs
        \<and> list_all2 (\<lambda>s r. generate_embeddings self s = Inr r) subs outs
        \<and> embedded_batch = concat outs)"

section \<open>Example data\<close>

text \<open>A parser that accepts only the text \<open>{}\<close>, a chunk whose metadata is a string that
  is not JSON, and a store over an engine that holds one empty collection of width 2.\<close>

definition only_empty_object :: json_parser where
  "only_empty_object s = (if s = pystr ''{}'' then Inr (PyDict []) else Inl JSONDecodeError)"

definition chunk_c1 :: DocumentChunk where
  "chunk_c1 =
     \<lparr>chunk_id = pystr ''c1'', content = pystr ''hello world'', source_file = pystr ''raft.pdf'',
      source_type = pystr ''pdf'', page_number = None, chunk_index = 0, start_char = Some 0,
      end_char = Some 11, metadata = PyStr (pystr ''not json'')\<rparr>"

definition embedded_c1 :: EmbeddedChunk where
  "embedded_c1 = \<lparr>chunk = chunk_c1, embedding = [1, 0], embedding_model = pystr ''bge''\<rparr>"

definition engine0 :: QdrantClient where
  "engine0 =
     \<lparr>collections = [pystr ''notebook_lm'' \<mapsto> \<lparr>vectors_size = 2, points = Map.empty\<rparr>],
      fails = (\<lambda>_. None),
      respond = (\<lambda>_ _ _ _. \<lparr>qr_points = Some []\<rparr>),
      calls = []\<rparr>"

definition db0 :: QdrantVectorDB where
  "db0 =
     \<lparr>db_path = pystr ''./qdrant_db'', collection_name = pystr ''notebook_lm'',
      db_embedding_dim = 2, client = engine0, collection_exists = True, url = None,
      api_key = None\<rparr>"

text \<open>The same engine when no request gets through, and when it answers every query with
  two ranked hits whose payload has only a content key.\<close>

definition unreachable :: "QdrantClient \<Rightarrow> QdrantClient" where
  "unreachable c = c\<lparr>fails := (\<lambda>_. Some (EngineError ''connection refused''))\<rparr>"

definition bare_payload :: payload where
  "bare_payload =
     \<lparr>pl_content = Some (pystr ''hello world''), pl_source_file = None, pl_source_type = None,
      pl_page_number = None, pl_chunk_index = None, pl_start_char = None, pl_end_char = None,
      pl_embedding_model = None, pl_metadata = Some (PyStr (pystr ''not json'')),
      pl_original_id = None\<rparr>"

definition two_hits :: QueryResponse where
  "two_hits =
     \<lparr>qr_points = Some
        [\<lparr>sp_id = 1, sp_score = Some 1, sp_payload = Some bare_payload\<rparr>,
         \<lparr>sp_id = 2, sp_score = Some (1 / 2), sp_payload = Some bare_payload\<rparr>]\<rparr>"

definition db_two_hits :: QdrantVectorDB where
  "db_two_hits = db0\<lparr>client := engine0\<lparr>respond := (\<lambda>_ _ _ _. two_hits)\<rparr>\<rparr>"

text \<open>An engine that answers with one hit whose similarity the engine's own arithmetic has
  lifted just above 1, and a rounding to the nearest multiple of \<open>2^-52\<close>, the spacing of
  the doubles between 1 and 2.\<close>

definition overshoot :: QueryResponse where
  "overshoot =
     \<lparr>qr_points = Some
        [\<lparr>sp_id = 1, sp_score = Some (1 + 1 / 2 ^ 25), sp_payload = Some bare_payload\<rparr>]\<rparr>"

definition db_overshoot :: QdrantVectorDB where
  "db_overshoot = db0\<lparr>client := engine0\<lparr>respond := (\<lambda>_ _ _ _. overshoot)\<rparr>\<rparr>"

text \<open>An engine that lists a weaker hit before a stronger one.\<close>

definition unranked :: QueryResponse where
  "unranked =
     \<lparr>qr_points = Some
        [\<lparr>sp_id = 1, sp_score = Some (1 / 2), sp_payload = Some bare_payload\<rparr>,
         \<lparr>sp_id = 2, sp_score = Some 1, sp_payload = Some bare_payload\<rparr>]\<rparr>"

definition db_unranked :: QdrantVectorDB where
  "db_unranked = db0\<lparr>client := engine0\<lparr>respond := (\<lambda>_ _ _ _. unranked)\<rparr>\<rparr>"

definition round_to_grid :: rounding where
  "round_to_grid x = of_int \<lfloor>x * 2 ^ 52 + 1 / 2\<rfloor> / 2 ^ 52"

text \<open>An earlier version of the chunk \<open>c1\<close>, the same chunk with another character span,
  and a chunk with another id.\<close>

definition embedded_c1_draft :: EmbeddedChunk where
  "embedded_c1_draft = embedded_c1\<lparr>chunk := chunk_c1\<lparr>content := pystr ''draft''\<rparr>\<rparr>"

definition embedded_c1_moved :: EmbeddedChunk where
  "embedded_c1_moved = embedded_c1\<lparr>chunk := chunk_c1\<lparr>start_char := Some 5, end_char := Some 16\<rparr>\<rparr>"

definition embedded_c2 :: EmbeddedChunk where
  "embedded_c2 =
     \<lparr>chunk = chunk_c1\<lparr>chunk_id := pystr ''c2'', content := pystr ''goodbye'',
                        page_number := Some 3, chunk_index := 1\<rparr>,
      embedding = [0, 1], embedding_model = pystr ''bge''\<rparr>"

text \<open>The store after it has deleted its collection and another instance, on the same
  engine, has created the collection again; and a store whose engine accepts writes while
  every retrieve call times out.\<close>

definition db_recreated :: QdrantVectorDB where
  "db_recreated =
     (let self = snd (delete_collection db0)
      in self\<lparr>client := snd (create_collection (client self) (collection_name self) 2)\<rparr>)"

definition db_read_fails :: QdrantVectorDB where
  "db_read_fails =
     db0\<lparr>client := engine0\<lparr>fails :=
       (\<lambda>call. case call of
                  Retrieve _ _ _ _ \<Rightarrow> Some (EngineError ''timeout'')
                | _ \<Rightarrow> None)\<rparr>\<rparr>"

text \<open>A store whose collection holds, under the key of \<open>c1\<close>, a point that another writer
  stored with a string as metadata.\<close>

definition db_foreign :: QdrantVectorDB where
  "db_foreign =
     db0\<lparr>client := engine0\<lparr>collections :=
       [pystr ''notebook_lm'' \<mapsto>
          \<lparr>vectors_size = 2,
           points = [string_id_to_int db0 (pystr ''c1'') \<mapsto>
                       \<lparr>ps_id = string_id_to_int db0 (pystr ''c1''), ps_vector = [1, 0],
                        ps_payload = Some bare_payload\<rparr>]\<rparr>]\<rparr>\<rparr>"

text \<open>A host with fastembed only, whose model maps a text to the vector of its length
  and 1, and the generator that the constructor builds there.\<close>

definition length_model :: model_handle where
  "length_model =
     \<lparr>embed = Some (\<lambda>texts. Inr (map (\<lambda>t. [real (length t), 1]) texts)), encode = None\<rparr>"

definition host0 :: environment where
  "host0 =
     \<lparr>FASTEMBED_AVAILABLE = True, SENTENCE_TRANSFORMERS_AVAILABLE = False,
      TRANSFORMERS_AVAILABLE = False, platform_system = pystr ''Linux'',
      TextEmbedding = (\<lambda>_ _. Inr length_model), import_transformers = None,
      local_model_path = pystr ''.embedding_model'', local_model_present = False,
      snapshot_download = (\<lambda>_ _. None), SentenceTransformer = (\<lambda>_. Inl ImportError),
      EmbeddingWrapper = (\<lambda>_. Inl ImportError)\<rparr>"

definition generator0 :: EmbeddingGenerator where
  "generator0 =
     \<lparr>model_name = pystr ''BAAI/bge-small-en-v1.5'', model = length_model, embedding_dim = 2,
      use_fastembed = True\<rparr>"

section \<open>Identifier mapping\<close>

text \<open>
  Claim C2. For every string \<open>s\<close>, \<open>_string_id_to_int(s)\<close> depends on \<open>s\<close> alone: it is
  the same on every store instance (so across calls and across process restarts, which
  only change the instance), and its value lies between \<open>0\<close> and \<open>2^63 - 2\<close>.
\<close>

theorem string_id_to_int_deterministic_in_range:
  "string_id_to_int self s = string_id_to_int self' s
   \<and> 0 \<le> string_id_to_int self s \<and> string_id_to_int self s \<le> 2 ^ 63 - 2"
  by (simp add: string_id_to_int_def Let_def)

text \<open>The model of the digest agrees with \<open>hashlib\<close> on the test suite of RFC 1321, and
  the key of the id \<open>c1\<close> is the one the Python function returns.\<close>

lemma md5_empty:
  "md5 [] = [0xd4, 0x1d, 0x8c, 0xd9, 0x8f, 0x00, 0xb2, 0x04,
             0xe9, 0x80, 0x09, 0x98, 0xec, 0xf8, 0x42, 0x7e]"
  by code_simp

lemma md5_abc:
  "md5 (encode_utf8 (pystr ''abc''))
     = [0x90, 0x01, 0x50, 0x98, 0x3c, 0xd2, 0x4f, 0xb0,
        0xd6, 0x96, 0x3f, 0x7d, 0x28, 0xe1, 0x7f, 0x72]"
  by code_simp

lemma md5_two_blocks:
  "md5 (encode_utf8 (pystr
      ''12345678901234567890123456789012345678901234567890123456789012345678901234567890''))
     = [0x57, 0xed, 0xf4, 0xa2, 0x2b, 0xe3, 0xc9, 0x55,
        0xac, 0x49, 0xda, 0x2e, 0x21, 0x07, 0xb6, 0x7a]"
  by code_simp

lemma encode_utf8_replaces_surrogate:
  "encode_utf8 [0xE9, 0x20AC, 0xD800, 0x41] = [0xC3, 0xA9, 0xE2, 0x82, 0xAC, 0x3F, 0x41]"
  by (simp add: encode_utf8_def encode_char_def)

lemma string_id_to_int_c1: "string_id_to_int self (pystr ''c1'') = 3024142382411468666"
  unfolding string_id_to_int_def Let_def by code_simp

lemma string_id_to_int_c2: "string_id_to_int self (pystr ''c2'') = 1924773577556138069"
  unfolding string_id_to_int_def Let_def by code_simp

lemma string_id_to_int_any_self:
  "string_id_to_int self s = string_id_to_int self' s"
  by (simp add: string_id_to_int_def)

section \<open>Insertion\<close>

text \<open>
  Claim C8. \<open>insert_embeddings([])\<close> returns the empty list and leaves the store as it
  was: the engine has received no request and holds the same collections.
\<close>

theorem insert_embeddings_empty:
  "insert_embeddings loads self [] = (Inr [], self)
   \<and> calls (client (snd (insert_embeddings loads self []))) = calls (client self)
   \<and> collections (client (snd (insert_embeddings loads self []))) = collections (client self)"
  by (simp add: insert_embeddings_def)

text \<open>
  Claim C10. For a non-empty list of embedded chunks, \<open>insert_embeddings\<close> returns as many
  elements as it was given, the \<open>i\<close>-th being \<open>_string_id_to_int\<close> of the \<open>i\<close>-th chunk's
  string id, in input order: the integer keys, not the string ids. The only other outcome
  is the exception of the engine's upsert, which propagates.
\<close>

theorem insert_embeddings_returns_keys:
  assumes "embedded_chunks \<noteq> []"
  shows "case fst (insert_embeddings loads self embedded_chunks) of
           Inr ids \<Rightarrow>
             length ids = length embedded_chunks \<and>
             (\<forall>i<length embedded_chunks.
                ids ! i = string_id_to_int self (chunk_id (chunk (embedded_chunks ! i))))
         | Inl e \<Rightarrow>
             fst (upsert (client self) (collection_name self)
                   (map (build_point loads self) embedded_chunks)) = Inl e"
  using assms
  by (auto simp: insert_embeddings_def Let_def build_point_def to_vector_db_format_def
           split: prod.splits sum.splits)

lemma db0_insert:
  "fst (insert_embeddings only_empty_object db0 [embedded_c1])
     = Inr [string_id_to_int db0 (pystr ''c1'')]"
  by (simp add: insert_embeddings_def upsert_def request_def db0_def engine0_def Let_def
        build_point_def to_vector_db_format_def embedded_c1_def chunk_c1_def)

theorem insert_embeddings_returns_keys_witness:
  "fst (insert_embeddings only_empty_object db0 [embedded_c1]) = Inr [3024142382411468666]"
  using insert_embeddings_returns_keys
          [where embedded_chunks = "[embedded_c1]" and loads = only_empty_object and self = db0]
        db0_insert string_id_to_int_c1 [of db0]
  by (simp add: embedded_c1_def chunk_c1_def)

section \<open>Retrieval by id\<close>

text \<open>
  Claim C5. \<open>get_chunk_by_id\<close> never raises, whatever the string id: it returns a value,
  and that value is the absent one when the store's collection flag is off, when the
  collection holds no point under the derived key, and when the engine's retrieve call
  raises. The three outcomes are the same value \<open>None\<close>.
\<close>

theorem get_chunk_by_id_reports_absence:
  "(\<exists>r. fst (get_chunk_by_id loads self cid) = Inr r)
   \<and> (\<not> collection_exists self \<longrightarrow> fst (get_chunk_by_id loads self cid) = Inr None)
   \<and> (collections (client self) (collection_name self) = Some col
        \<and> points col (string_id_to_int self cid) = None
        \<longrightarrow> fst (get_chunk_by_id loads self cid) = Inr None)
   \<and> (fst (retrieve (client self) (collection_name self) [string_id_to_int self cid] True False)
          = Inl e
        \<longrightarrow> fst (get_chunk_by_id loads self cid) = Inr None)"
proof (intro conjI impI)
  show "\<exists>r. fst (get_chunk_by_id loads self cid) = Inr r"
    by (cases "get_chunk_by_id_try loads self cid")
       (auto simp: get_chunk_by_id_def split: sum.splits)
next
  assume "\<not> collection_exists self"
  then show "fst (get_chunk_by_id loads self cid) = Inr None"
    by (simp add: get_chunk_by_id_def get_chunk_by_id_try_def)
next
  assume "collections (client self) (collection_name self) = Some col
        \<and> points col (string_id_to_int self cid) = None"
  then show "fst (get_chunk_by_id loads self cid) = Inr None"
    by (simp add: get_chunk_by_id_def get_chunk_by_id_try_def retrieve_def Let_def
          split: option.splits)
next
  assume "fst (retrieve (client self) (collection_name self) [string_id_to_int self cid]
                 True False) = Inl e"
  then show "fst (get_chunk_by_id loads self cid) = Inr None"
    by (cases "retrieve (client self) (collection_name self) [string_id_to_int self cid]
                 True False")
       (simp add: get_chunk_by_id_def get_chunk_by_id_try_def Let_def)
qed

lemma delete_collection_clears_flag:
  "fst (delete_collection self) = Inr () \<Longrightarrow> \<not> collection_exists (snd (delete_collection self))"
  by (auto simp: delete_collection_def split: if_splits prod.splits sum.splits)

lemma db0_deleted: "fst (delete_collection db0) = Inr ()"
  by (simp add: delete_collection_def delete_collection_call_def request_def db0_def
        engine0_def Let_def)

theorem get_chunk_by_id_reports_absence_witness:
  "fst (get_chunk_by_id only_empty_object (snd (delete_collection db0)) (pystr ''c1''))
     = Inr None
   \<and> fst (get_chunk_by_id only_empty_object db0 (pystr ''c1'')) = Inr None
   \<and> fst (get_chunk_by_id only_empty_object (db0\<lparr>client := unreachable engine0\<rparr>)
            (pystr ''c1'')) = Inr None"
proof (intro conjI)
  show "fst (get_chunk_by_id only_empty_object (snd (delete_collection db0)) (pystr ''c1''))
          = Inr None"
    using get_chunk_by_id_reports_absence
            [where self = "snd (delete_collection db0)" and loads = only_empty_object
               and cid = "pystr ''c1''"]
          delete_collection_clears_flag [OF db0_deleted]
    by simp
next
  show "fst (get_chunk_by_id only_empty_object db0 (pystr ''c1'')) = Inr None"
    using get_chunk_by_id_reports_absence
            [where self = db0 and loads = only_empty_object and cid = "pystr ''c1''"
               and col = "\<lparr>vectors_size = 2, points = Map.empty\<rparr>"]
    by (simp add: db0_def engine0_def)
next
  show "fst (get_chunk_by_id only_empty_object (db0\<lparr>client := unreachable engine0\<rparr>)
               (pystr ''c1'')) = Inr None"
    using get_chunk_by_id_reports_absence
            [where self = "db0\<lparr>client := unreachable engine0\<rparr>" and loads = only_empty_object
               and cid = "pystr ''c1''" and e = "EngineError ''connection refused''"]
    by (simp add: db0_def engine0_def unreachable_def retrieve_def Let_def)
qed

subsection \<open>Insert, then retrieve\<close>

lemma store_points_other:
  "\<forall>q\<in>set pts. ps_id q \<noteq> k \<Longrightarrow> store_points m pts k = m k"
  unfolding store_points_def by (induction pts arbitrary: m) auto

lemma store_points_last:
  assumes "\<forall>q\<in>set after. ps_id q \<noteq> ps_id p"
  shows "store_points m (before @ p # after) (ps_id p) = Some p"
proof -
  have "store_points m (before @ p # after)
          = store_points ((store_points m before)(ps_id p \<mapsto> p)) after"
    by (simp add: store_points_def)
  then show ?thesis
    using store_points_other [OF assms] by simp
qed

lemma build_point_id:
  "ps_id (build_point loads self ec) = string_id_to_int self (chunk_id (chunk ec))"
  by (simp add: build_point_def to_vector_db_format_def Let_def)

lemma insert_embeddings_stores:
  assumes ins: "insert_embeddings loads self ecs = (Inr ids, self')" and ne: "ecs \<noteq> []"
  shows "\<exists>col. collections (client self) (collection_name self) = Some col
           \<and> collections (client self') (collection_name self)
               = Some (col\<lparr>points := store_points (points col) (map (build_point loads self) ecs)\<rparr>)
           \<and> fails (client self') = fails (client self)
           \<and> collection_name self' = collection_name self
           \<and> collection_exists self' = collection_exists self"
  using ins ne
  by (auto simp: insert_embeddings_def upsert_def request_def Let_def
           split: option.splits if_splits prod.splits sum.splits)

lemma insert_then_get:
  assumes ins: "insert_embeddings loads self (before @ ec # after) = (Inr ids, self')"
    and last: "\<forall>ec'\<in>set after. string_id_to_int self (chunk_id (chunk ec'))
                 \<noteq> string_id_to_int self (chunk_id (chunk ec))"
    and flag: "collection_exists self"
    and up: "fails (client self)
               (Retrieve (collection_name self) [string_id_to_int self (chunk_id (chunk ec))]
                  True False) = None"
  shows "fst (get_chunk_by_id loads self' (chunk_id (chunk ec)))
           = Inr (Some
               \<lparr>cv_id = chunk_id (chunk ec),
                cv_content = content (chunk ec),
                cv_metadata = read_metadata loads (build_payload loads (to_vector_db_format ec)),
                cv_source_file = source_file (chunk ec),
                cv_source_type = source_type (chunk ec),
                cv_page_number = unsentinel (Some (sentinel (page_number (chunk ec)))),
                cv_chunk_index = chunk_index (chunk ec)\<rparr>)"
proof -
  let ?k = "string_id_to_int self (chunk_id (chunk ec))"
  let ?p = "build_point loads self ec"
  let ?pts = "map (build_point loads self) (before @ ec # after)"
  obtain col where col': "collections (client self') (collection_name self)
                 = Some (col\<lparr>points := store_points (points col) ?pts\<rparr>)"
    and fails': "fails (client self') = fails (client self)"
    and name': "collection_name self' = collection_name self"
    and flag': "collection_exists self' = collection_exists self"
    using insert_embeddings_stores [OF ins] by blast
  have "\<forall>q\<in>set (map (build_point loads self) after). ps_id q \<noteq> ps_id ?p"
    using last by (simp add: build_point_id)
  then have "store_points (points col)
               (map (build_point loads self) before @ ?p # map (build_point loads self) after)
               (ps_id ?p) = Some ?p"
    by (rule store_points_last)
  then have stored: "store_points (points col) ?pts ?k = Some ?p"
    by (simp add: build_point_id)
  have key: "string_id_to_int self' (chunk_id (chunk ec)) = ?k"
    by (rule string_id_to_int_any_self)
  have retr: "fst (retrieve (client self') (collection_name self') [?k] True False)
                = Inr [to_record True False ?p]"
    using col' fails' name' up stored
    by (simp add: retrieve_def Let_def)
  show ?thesis
    using retr flag flag' key
    by (cases "retrieve (client self') (collection_name self') [?k] True False")
       (simp add: get_chunk_by_id_def get_chunk_by_id_try_def Let_def to_record_def
          build_point_def build_payload_def to_vector_db_format_def get_or_def read_metadata_def)
qed

lemma db0_insert_pair:
  "insert_embeddings only_empty_object db0 ([] @ embedded_c1 # [])
     = (Inr [string_id_to_int db0 (pystr ''c1'')],
        snd (insert_embeddings only_empty_object db0 [embedded_c1]))"
  using db0_insert by (simp add: prod_eq_iff)

text \<open>
  Claim C1, as amended. Let a batch given to \<open>insert_embeddings\<close> contain an embedded
  chunk with string id \<open>X\<close>, no later chunk of the batch having the same integer key (the
  last write wins). If the insertion succeeds, the store's \<open>collection_exists\<close> flag is
  set and the engine's retrieve call does not fail, then \<open>get_chunk_by_id(X)\<close> returns a
  present record whose id is \<open>X\<close> and whose content, source file, source type and chunk
  index are the chunk's; its page number is the chunk's, except that \<open>-1\<close>, the stored
  sentinel, comes back as absent. Nothing is said of the character span.
\<close>

theorem insert_get_chunk_round_trip:
  assumes "insert_embeddings loads self (before @ ec # after) = (Inr ids, self')"
    and "\<forall>ec'\<in>set after. string_id_to_int self (chunk_id (chunk ec'))
            \<noteq> string_id_to_int self (chunk_id (chunk ec))"
    and "collection_exists self"
    and "fails (client self)
           (Retrieve (collection_name self) [string_id_to_int self (chunk_id (chunk ec))]
              True False) = None"
  shows "\<exists>v. fst (get_chunk_by_id loads self' (chunk_id (chunk ec))) = Inr (Some v)
           \<and> cv_id v = chunk_id (chunk ec)
           \<and> cv_content v = content (chunk ec)
           \<and> cv_source_file v = source_file (chunk ec)
           \<and> cv_source_type v = source_type (chunk ec)
           \<and> cv_chunk_index v = chunk_index (chunk ec)
           \<and> cv_page_number v
               = (if page_number (chunk ec) = Some (- 1) then None else page_number (chunk ec))"
  using insert_then_get [OF assms]
  by (auto simp: sentinel_def unsentinel_def split: option.splits)

lemma only_empty_object_rejects: "only_empty_object (pystr ''not json'') = Inl JSONDecodeError"
  by (simp add: only_empty_object_def pystr_def)

lemma db0_insert_three:
  "fst (insert_embeddings only_empty_object db0 [embedded_c1_draft, embedded_c1, embedded_c2])
     = Inr [3024142382411468666, 3024142382411468666, 1924773577556138069]"
  by (simp add: insert_embeddings_def upsert_def request_def db0_def engine0_def Let_def
        build_point_def to_vector_db_format_def embedded_c1_draft_def embedded_c1_def
        embedded_c2_def chunk_c1_def string_id_to_int_c1 string_id_to_int_c2)

theorem insert_get_chunk_round_trip_witness:
  "\<exists>v. fst (get_chunk_by_id only_empty_object
               (snd (insert_embeddings only_empty_object db0
                       [embedded_c1_draft, embedded_c1, embedded_c2])) (pystr ''c1''))
          = Inr (Some v)
        \<and> cv_id v = pystr ''c1'' \<and> cv_content v = pystr ''hello world''
        \<and> cv_source_file v = pystr ''raft.pdf'' \<and> cv_source_type v = pystr ''pdf''
        \<and> cv_chunk_index v = 0 \<and> cv_page_number v = None"
proof -
  have ins: "insert_embeddings only_empty_object db0
               ([embedded_c1_draft] @ embedded_c1 # [embedded_c2])
               = (Inr [3024142382411468666, 3024142382411468666, 1924773577556138069],
                  snd (insert_embeddings only_empty_object db0
                         [embedded_c1_draft, embedded_c1, embedded_c2]))"
    using db0_insert_three by (simp add: prod_eq_iff)
  have last: "\<forall>ec'\<in>set [embedded_c2]. string_id_to_int db0 (chunk_id (chunk ec'))
                \<noteq> string_id_to_int db0 (chunk_id (chunk embedded_c1))"
    by (simp add: embedded_c1_def embedded_c2_def chunk_c1_def string_id_to_int_c1
          string_id_to_int_c2)
  have flag: "collection_exists db0"
    by (simp add: db0_def)
  have up: "fails (client db0)
              (Retrieve (collection_name db0)
                 [string_id_to_int db0 (chunk_id (chunk embedded_c1))] True False) = None"
    by (simp add: db0_def engine0_def)
  show ?thesis
    using insert_get_chunk_round_trip [OF ins last flag up]
    by (simp add: embedded_c1_def chunk_c1_def)
qed

text \<open>
  The claim as it was stated fails in three ways. After the store has deleted its
  collection and another instance has created it again, an insertion succeeds and the
  chunk reads back as absent, because the flag is off; the same happens when the retrieve
  call times out; and two chunks that differ only in their character span read back as
  the same record, which has no field for the span.
\<close>

theorem round_trip_absent_or_without_span:
  "fst (insert_embeddings only_empty_object db_recreated [embedded_c1])
     = Inr [3024142382411468666]
   \<and> fst (get_chunk_by_id only_empty_object
            (snd (insert_embeddings only_empty_object db_recreated [embedded_c1]))
            (pystr ''c1'')) = Inr None
   \<and> fst (insert_embeddings only_empty_object db_read_fails [embedded_c1])
       = Inr [3024142382411468666]
   \<and> fst (get_chunk_by_id only_empty_object
            (snd (insert_embeddings only_empty_object db_read_fails [embedded_c1]))
            (pystr ''c1'')) = Inr None
   \<and> start_char (chunk embedded_c1_moved) \<noteq> start_char (chunk embedded_c1)
   \<and> fst (get_chunk_by_id only_empty_object
            (snd (insert_embeddings only_empty_object db0 [embedded_c1_moved]))
            (pystr ''c1''))
       = fst (get_chunk_by_id only_empty_object
               (snd (insert_embeddings only_empty_object db0 [embedded_c1]))
               (pystr ''c1''))"
proof (intro conjI)
  show "fst (insert_embeddings only_empty_object db_recreated [embedded_c1])
          = Inr [3024142382411468666]"
    by (simp add: insert_embeddings_def upsert_def request_def db_recreated_def
          delete_collection_def delete_collection_call_def create_collection_def db0_def
          engine0_def Let_def build_point_def to_vector_db_format_def embedded_c1_def
          chunk_c1_def string_id_to_int_c1)
next
  show "fst (get_chunk_by_id only_empty_object
              (snd (insert_embeddings only_empty_object db_recreated [embedded_c1]))
              (pystr ''c1'')) = Inr None"
    by (simp add: get_chunk_by_id_def get_chunk_by_id_try_def insert_embeddings_def upsert_def
          request_def db_recreated_def delete_collection_def delete_collection_call_def
          create_collection_def db0_def engine0_def Let_def build_point_def
          to_vector_db_format_def embedded_c1_def chunk_c1_def string_id_to_int_c1)
next
  show "fst (insert_embeddings only_empty_object db_read_fails [embedded_c1])
          = Inr [3024142382411468666]"
    by (simp add: insert_embeddings_def upsert_def request_def db_read_fails_def db0_def
          engine0_def Let_def build_point_def to_vector_db_format_def embedded_c1_def
          chunk_c1_def string_id_to_int_c1)
next
  show "fst (get_chunk_by_id only_empty_object
              (snd (insert_embeddings only_empty_object db_read_fails [embedded_c1]))
              (pystr ''c1'')) = Inr None"
    by (simp add: get_chunk_by_id_def get_chunk_by_id_try_def retrieve_def insert_embeddings_def
          upsert_def request_def db_read_fails_def db0_def engine0_def Let_def build_point_def
          to_vector_db_format_def embedded_c1_def chunk_c1_def string_id_to_int_c1)
next
  show "start_char (chunk embedded_c1_moved) \<noteq> start_char (chunk embedded_c1)"
    by (simp add: embedded_c1_moved_def embedded_c1_def chunk_c1_def)
next
  show "fst (get_chunk_by_id only_empty_object
              (snd (insert_embeddings only_empty_object db0 [embedded_c1_moved]))
              (pystr ''c1''))
          = fst (get_chunk_by_id only_empty_object
                  (snd (insert_embeddings only_empty_object db0 [embedded_c1]))
                  (pystr ''c1''))"
    by (simp add: get_chunk_by_id_def get_chunk_by_id_try_def retrieve_def to_record_def
          insert_embeddings_def upsert_def request_def store_points_def db0_def engine0_def
          Let_def build_point_def build_payload_def to_vector_db_format_def embedded_c1_def
          embedded_c1_moved_def chunk_c1_def string_id_to_int_c1 get_or_def read_metadata_def
          json_loads_def only_empty_object_rejects)
qed

text \<open>
  Claim C9. Let the metadata of a chunk be a string that \<open>json.loads\<close> rejects. Then the
  payload \<open>insert_embeddings\<close> builds for it reads as the empty mapping, the insertion
  raises only what the engine's upsert raises, and \<open>get_chunk_by_id\<close> after the insertion
  returns a present record with the empty mapping as metadata. Likewise
  \<open>get_chunk_by_id\<close> on a stored point whose metadata is such a string returns a present
  record with the empty mapping as metadata.
\<close>

theorem malformed_metadata_becomes_empty_mapping:
  assumes bad: "metadata (chunk ec) = PyStr s" "loads s = Inl err"
  shows "(\<exists>pl. ps_payload (build_point loads self ec) = Some pl
            \<and> get_or (pl_metadata pl) (PyDict []) = PyDict [])
         \<and> (fst (insert_embeddings loads self (before @ ec # after)) = Inl e
              \<longrightarrow> fst (upsert (client self) (collection_name self)
                         (map (build_point loads self) (before @ ec # after))) = Inl e)
         \<and> (insert_embeddings loads self (before @ ec # after) = (Inr ids, self')
              \<and> (\<forall>ec'\<in>set after. string_id_to_int self (chunk_id (chunk ec'))
                     \<noteq> string_id_to_int self (chunk_id (chunk ec)))
              \<and> collection_exists self
              \<and> fails (client self)
                   (Retrieve (collection_name self)
                      [string_id_to_int self (chunk_id (chunk ec))] True False) = None
              \<longrightarrow> (\<exists>v. fst (get_chunk_by_id loads self' (chunk_id (chunk ec))) = Inr (Some v)
                        \<and> cv_metadata v = PyDict []))
         \<and> (collection_exists db
              \<and> fst (retrieve (client db) (collection_name db) [string_id_to_int db cid]
                        True False) = Inr (r # rs)
              \<and> rec_payload r = Some stored \<and> pl_metadata stored = Some (PyStr s)
              \<longrightarrow> (\<exists>v. fst (get_chunk_by_id loads db cid) = Inr (Some v)
                        \<and> cv_metadata v = PyDict []))"
proof (intro conjI impI)
  show "\<exists>pl. ps_payload (build_point loads self ec) = Some pl
          \<and> get_or (pl_metadata pl) (PyDict []) = PyDict []"
    using bad
    by (simp add: build_point_def build_payload_def to_vector_db_format_def Let_def
          json_loads_def get_or_def)
next
  assume "fst (insert_embeddings loads self (before @ ec # after)) = Inl e"
  then show "fst (upsert (client self) (collection_name self)
                    (map (build_point loads self) (before @ ec # after))) = Inl e"
    by (auto simp: insert_embeddings_def Let_def split: prod.splits sum.splits)
next
  assume a: "insert_embeddings loads self (before @ ec # after) = (Inr ids, self')
              \<and> (\<forall>ec'\<in>set after. string_id_to_int self (chunk_id (chunk ec'))
                     \<noteq> string_id_to_int self (chunk_id (chunk ec)))
              \<and> collection_exists self
              \<and> fails (client self)
                   (Retrieve (collection_name self)
                      [string_id_to_int self (chunk_id (chunk ec))] True False) = None"
  have "read_metadata loads (build_payload loads (to_vector_db_format ec)) = PyDict []"
    using bad
    by (simp add: read_metadata_def build_payload_def to_vector_db_format_def json_loads_def
          get_or_def)
  with a show "\<exists>v. fst (get_chunk_by_id loads self' (chunk_id (chunk ec))) = Inr (Some v)
                 \<and> cv_metadata v = PyDict []"
    using insert_then_get [of loads self before ec after ids self'] by simp
next
  assume a: "collection_exists db
              \<and> fst (retrieve (client db) (collection_name db) [string_id_to_int db cid]
                        True False) = Inr (r # rs)
              \<and> rec_payload r = Some stored \<and> pl_metadata stored = Some (PyStr s)"
  then show "\<exists>v. fst (get_chunk_by_id loads db cid) = Inr (Some v) \<and> cv_metadata v = PyDict []"
    using bad(2)
    by (cases "retrieve (client db) (collection_name db) [string_id_to_int db cid] True False")
       (simp add: get_chunk_by_id_def get_chunk_by_id_try_def Let_def read_metadata_def
          json_loads_def get_or_def)
qed

theorem malformed_metadata_becomes_empty_mapping_witness:
  "(\<exists>v. fst (get_chunk_by_id only_empty_object
                (snd (insert_embeddings only_empty_object db0 [embedded_c1])) (pystr ''c1''))
           = Inr (Some v)
         \<and> cv_metadata v = PyDict [])
   \<and> (\<exists>v. fst (get_chunk_by_id only_empty_object db_foreign (pystr ''c1'')) = Inr (Some v)
         \<and> cv_metadata v = PyDict [])"
proof (intro conjI)
  have bad: "metadata (chunk embedded_c1) = PyStr (pystr ''not json'')"
    by (simp add: embedded_c1_def chunk_c1_def)
  have ins: "insert_embeddings only_empty_object db0 ([] @ embedded_c1 # [])
               = (Inr [string_id_to_int db0 (pystr ''c1'')],
                  snd (insert_embeddings only_empty_object db0 [embedded_c1]))"
    by (rule db0_insert_pair)
  have rest: "(\<forall>ec'\<in>set []. string_id_to_int db0 (chunk_id (chunk ec'))
                 \<noteq> string_id_to_int db0 (chunk_id (chunk embedded_c1)))
              \<and> collection_exists db0
              \<and> fails (client db0)
                   (Retrieve (collection_name db0)
                      [string_id_to_int db0 (chunk_id (chunk embedded_c1))] True False) = None"
    by (simp add: db0_def engine0_def)
  show "\<exists>v. fst (get_chunk_by_id only_empty_object
                (snd (insert_embeddings only_empty_object db0 [embedded_c1])) (pystr ''c1''))
           = Inr (Some v)
         \<and> cv_metadata v = PyDict []"
    using malformed_metadata_becomes_empty_mapping
            [where ec = embedded_c1 and s = "pystr ''not json''" and loads = only_empty_object
               and err = JSONDecodeError and self = db0 and before = "[]" and after = "[]"
               and ids = "[string_id_to_int db0 (pystr ''c1'')]"
               and self' = "snd (insert_embeddings only_empty_object db0 [embedded_c1])"]
          bad only_empty_object_rejects ins rest
    by (simp add: embedded_c1_def chunk_c1_def)
next
  have bad: "metadata (chunk embedded_c1) = PyStr (pystr ''not json'')"
    by (simp add: embedded_c1_def chunk_c1_def)
  have found: "collection_exists db_foreign
     \<and> fst (retrieve (client db_foreign) (collection_name db_foreign)
              [string_id_to_int db_foreign (pystr ''c1'')] True False)
         = Inr (\<lparr>rec_id = string_id_to_int db0 (pystr ''c1''), rec_payload = Some bare_payload,
                  rec_vector = None\<rparr> # [])
     \<and> rec_payload \<lparr>rec_id = string_id_to_int db0 (pystr ''c1''),
                     rec_payload = Some bare_payload, rec_vector = None\<rparr> = Some bare_payload
     \<and> pl_metadata bare_payload = Some (PyStr (pystr ''not json''))"
    using string_id_to_int_any_self [of db_foreign "pystr ''c1''" db0]
    by (simp add: db_foreign_def db0_def engine0_def retrieve_def Let_def to_record_def
          bare_payload_def)
  show "\<exists>v. fst (get_chunk_by_id only_empty_object db_foreign (pystr ''c1'')) = Inr (Some v)
          \<and> cv_metadata v = PyDict []"
    using malformed_metadata_becomes_empty_mapping
            [where ec = embedded_c1 and s = "pystr ''not json''" and loads = only_empty_object
               and err = JSONDecodeError
               and db = db_foreign and cid = "pystr ''c1''" and stored = bare_payload
               and r = "\<lparr>rec_id = string_id_to_int db0 (pystr ''c1''),
                          rec_payload = Some bare_payload, rec_vector = None\<rparr>"
               and rs = "[]"]
          bad only_empty_object_rejects found
    by simp
qed

section \<open>Search\<close>

text \<open>
  Claim C6. For every query vector, limit and filter expression \<open>f\<close>, \<open>search\<close> with
  \<open>filter_expr = f\<close> returns what \<open>search\<close> without a filter returns, and sends the engine
  the same request: the filter has no influence.
\<close>

theorem search_ignores_filter:
  "search rnd self query_vector limit (Some f) = search rnd self query_vector limit None"
  by (simp add: search_def)

lemma format_results_scores:
  "format_results rnd ps = Inr rs
   \<Longrightarrow> map sr_score rs = map (\<lambda>p. rnd (1 - get_or (sp_score p) 0)) ps"
proof (induction ps arbitrary: rs)
  case Nil
  then show ?case by simp
next
  case (Cons p ps)
  then show ?case
    by (auto simp: format_result_def float_sub_def Let_def split: sum.splits option.splits)
qed

lemma sorted_rounded_distance:
  "mono (rnd :: real \<Rightarrow> real) \<Longrightarrow> sorted_wrt (\<lambda>a b. b \<le> a) (xs :: real list)
   \<Longrightarrow> sorted (map (\<lambda>x. rnd (1 - x)) xs)"
  by (induction xs) (auto simp: mono_def)

lemma rounded_distance_range:
  assumes "mono (rnd :: real \<Rightarrow> real)" "rnd 0 = 0" "rnd 2 = 2" "- 1 \<le> x" "x \<le> 1"
  shows "0 \<le> rnd (1 - x) \<and> rnd (1 - x) \<le> 2"
proof -
  have "rnd 0 \<le> rnd (1 - x)" using assms by (intro monoD [of rnd]) auto
  moreover have "rnd (1 - x) \<le> rnd 2" using assms by (intro monoD [of rnd]) auto
  ultimately show ?thesis using assms by simp
qed

lemma round_to_grid_mono: "mono round_to_grid"
proof (rule monoI)
  fix x y :: real
  assume "x \<le> y"
  then have "\<lfloor>x * 2 ^ 52 + 1 / 2\<rfloor> \<le> \<lfloor>y * 2 ^ 52 + 1 / 2\<rfloor>"
    by (intro floor_mono) simp
  then have "(of_int \<lfloor>x * 2 ^ 52 + 1 / 2\<rfloor> :: real) \<le> of_int \<lfloor>y * 2 ^ 52 + 1 / 2\<rfloor>"
    by simp
  then show "round_to_grid x \<le> round_to_grid y"
    unfolding round_to_grid_def by (rule divide_right_mono) simp
qed

lemma round_to_grid_fixes: "round_to_grid 0 = 0" "round_to_grid 2 = 2"
  by (simp_all add: round_to_grid_def)

text \<open>
  Claim C4, as amended. The score of each returned result is the float subtraction
  \<open>1 - s\<close>, where \<open>s\<close> is the engine's score for that point (\<open>0.0\<close> for a point without
  one). \<open>search\<close> neither clamps nor sorts: when the engine's scores lie between \<open>-1\<close> and
  \<open>1\<close>, every returned score lies between \<open>0\<close> and \<open>2\<close>; when the engine lists its
  points by scores that do not increase, the returned scores do not decrease along the
  ranking. The rounding of floats is monotone and leaves the floats \<open>0\<close> and \<open>2\<close> as they
  are.
\<close>

theorem search_scores_are_distances:
  assumes engine: "fst (query_points (client self) (collection_name self) query_vector None limit)
                     = Inr response"
    and returned: "fst (search rnd self query_vector limit filter_expr) = Inr results"
  shows "map sr_score results
           = map (\<lambda>p. rnd (1 - get_or (sp_score p) 0)) (get_or (qr_points response) [])
         \<and> (mono rnd \<and> rnd 0 = 0 \<and> rnd 2 = 2
              \<and> (\<forall>p\<in>set (get_or (qr_points response) []).
                    - 1 \<le> get_or (sp_score p) 0 \<and> get_or (sp_score p) 0 \<le> 1)
              \<longrightarrow> (\<forall>r\<in>set results. 0 \<le> sr_score r \<and> sr_score r \<le> 2))
         \<and> (mono rnd
              \<and> sorted_wrt (\<lambda>a b. b \<le> a)
                   (map (\<lambda>p. get_or (sp_score p) 0) (get_or (qr_points response) []))
              \<longrightarrow> sorted (map sr_score results))"
proof -
  let ?ps = "get_or (qr_points response) []"
  have fr: "format_results rnd ?ps = Inr results"
    using engine returned
    by (cases "query_points (client self) (collection_name self) query_vector None limit")
       (auto simp: search_def Let_def)
  have scores: "map sr_score results = map (\<lambda>p. rnd (1 - get_or (sp_score p) 0)) ?ps"
    by (rule format_results_scores [OF fr])
  have range: "\<forall>r\<in>set results. 0 \<le> sr_score r \<and> sr_score r \<le> 2"
    if a: "mono rnd \<and> rnd 0 = 0 \<and> rnd 2 = 2
           \<and> (\<forall>p\<in>set ?ps. - 1 \<le> get_or (sp_score p) 0 \<and> get_or (sp_score p) 0 \<le> 1)"
  proof -
    from a have "\<forall>x\<in>set (map sr_score results). 0 \<le> x \<and> x \<le> 2"
      unfolding scores by (auto dest: rounded_distance_range)
    then show ?thesis by simp
  qed
  have order: "sorted (map sr_score results)"
    if a: "mono rnd
           \<and> sorted_wrt (\<lambda>a b. b \<le> a) (map (\<lambda>p. get_or (sp_score p) 0) ?ps)"
  proof -
    from a have "sorted (map (\<lambda>x. rnd (1 - x)) (map (\<lambda>p. get_or (sp_score p) 0) ?ps))"
      by (intro sorted_rounded_distance) simp_all
    then show ?thesis
      unfolding scores by (simp add: comp_def)
  qed
  from scores range order show ?thesis by blast
qed

lemma db_two_hits_query:
  "fst (query_points (client db_two_hits) (collection_name db_two_hits) [1, 0] None 2)
     = Inr two_hits"
  by (simp add: db_two_hits_def db0_def engine0_def query_points_def request_def Let_def)

lemma db_two_hits_search:
  "\<exists>r1 r2. fst (search round_to_grid db_two_hits [1, 0] 2 (Some (pystr ''page > 3'')))
             = Inr [r1, r2]"
  by (simp add: search_def db_two_hits_def db0_def engine0_def query_points_def request_def
        Let_def two_hits_def get_or_def format_result_def)

theorem search_scores_are_distances_witness:
  "\<exists>results. fst (search round_to_grid db_two_hits [1, 0] 2 (Some (pystr ''page > 3'')))
                = Inr results
     \<and> map sr_score results = [0, 1 / 2]
     \<and> (\<forall>r\<in>set results. 0 \<le> sr_score r \<and> sr_score r \<le> 2)
     \<and> sorted (map sr_score results)"
proof -
  obtain r1 r2
    where returned: "fst (search round_to_grid db_two_hits [1, 0] 2 (Some (pystr ''page > 3'')))
                       = Inr [r1, r2]"
    using db_two_hits_search by blast
  have rounding: "mono round_to_grid \<and> round_to_grid 0 = 0 \<and> round_to_grid 2 = 2"
    by (simp add: round_to_grid_mono round_to_grid_fixes)
  have cosine: "\<forall>p\<in>set (get_or (qr_points two_hits) []).
                  - 1 \<le> get_or (sp_score p) 0 \<and> get_or (sp_score p) 0 \<le> 1"
    by (simp add: two_hits_def get_or_def)
  have ranked: "sorted_wrt (\<lambda>a b. b \<le> a)
                  (map (\<lambda>p. get_or (sp_score p) 0) (get_or (qr_points two_hits) []))"
    by (simp add: two_hits_def get_or_def)
  have listed: "map (\<lambda>p. round_to_grid (1 - get_or (sp_score p) 0))
                  (get_or (qr_points two_hits) []) = [0, 1 / 2]"
    by (simp add: two_hits_def get_or_def round_to_grid_def)
  have "map sr_score [r1, r2] = [0, 1 / 2]
        \<and> (\<forall>r\<in>set [r1, r2]. 0 \<le> sr_score r \<and> sr_score r \<le> 2)
        \<and> sorted (map sr_score [r1, r2])"
  proof (intro conjI)
    note distances = search_scores_are_distances [OF db_two_hits_query returned]
    from distances listed show "map sr_score [r1, r2] = [0, 1 / 2]"
      by (simp only:)
    from distances rounding cosine
    show "\<forall>r\<in>set [r1, r2]. 0 \<le> sr_score r \<and> sr_score r \<le> 2"
      by blast
    from distances rounding ranked show "sorted (map sr_score [r1, r2])"
      by blast
  qed
  with returned show ?thesis
    by (intro exI [where x = "[r1, r2]"]) simp
qed

text \<open>
  The claim as it was stated fails: on the answer of an engine whose similarity for a
  match is just above 1 the score that \<open>search\<close> returns is negative, and on an answer
  that lists a weaker hit first the returned scores decrease.
\<close>

theorem search_scores_unclamped_unsorted:
  "\<not> isl (fst (search round_to_grid db_overshoot [1, 0] 1 None))
   \<and> map sr_score (projr (fst (search round_to_grid db_overshoot [1, 0] 1 None)))
       = [- (1 / 2 ^ 25)]
   \<and> \<not> isl (fst (search round_to_grid db_unranked [1, 0] 2 None))
   \<and> map sr_score (projr (fst (search round_to_grid db_unranked [1, 0] 2 None)))
       = [1 / 2, 0]"
  by (simp add: search_def db_overshoot_def db_unranked_def db0_def engine0_def
        query_points_def request_def Let_def overshoot_def unranked_def get_or_def
        format_result_def float_sub_def round_to_grid_def)

section \<open>Embedding generation\<close>

subsection \<open>The dimension fixed by the constructor\<close>

lemma first_len_Inr:
  "first_len r = Inr d \<Longrightarrow> \<exists>v vs. r = Inr (v # vs) \<and> d = length v"
  by (auto simp: first_len_def split: sum.splits list.splits)

lemma try_fastembed_probe:
  "try_fastembed env name attempt = Inr g
   \<Longrightarrow> \<exists>v vs. run_model g [pystr ''test''] = Inr (v # vs) \<and> embedding_dim g = length v"
  by (auto simp: try_fastembed_def run_model_def split: sum.splits dest!: first_len_Inr)

lemma fastembed_loop_probe:
  "fastembed_loop env name attempts = Some g
   \<Longrightarrow> \<exists>v vs. run_model g [pystr ''test''] = Inr (v # vs) \<and> embedding_dim g = length v"
proof (induction attempts)
  case Nil
  then show ?case by simp
next
  case (Cons a attempts)
  then show ?case
    by (auto split: sum.splits dest: try_fastembed_probe)
qed

lemma probe_encode_probe:
  "probe_encode m = Inr g
   \<Longrightarrow> \<exists>v vs. run_model g [pystr ''test''] = Inr (v # vs) \<and> embedding_dim g = length v"
  by (auto simp: probe_encode_def run_model_def split: sum.splits dest!: first_len_Inr)

lemma try_sentence_transformer_probe:
  "try_sentence_transformer env = Inr g
   \<Longrightarrow> \<exists>v vs. run_model g [pystr ''test''] = Inr (v # vs) \<and> embedding_dim g = length v"
  unfolding try_sentence_transformer_def
  by (auto split: if_splits sum.splits option.splits dest: probe_encode_probe)

lemma try_transformers_probe:
  "try_transformers env = Inr g
   \<Longrightarrow> \<exists>v vs. run_model g [pystr ''test''] = Inr (v # vs) \<and> embedding_dim g = length v"
  unfolding try_transformers_def
  by (auto split: sum.splits dest: probe_encode_probe)

lemma initialize_model_probe:
  assumes "initialize_model env name fe = Inr g"
  shows "\<exists>v vs. run_model g [pystr ''test''] = Inr (v # vs) \<and> embedding_dim g = length v"
proof (cases "if fe then fastembed_loop env name [0..<2] else None")
  case (Some g')
  with assms have "g' = g" by (simp add: initialize_model_def)
  moreover from Some have "fastembed_loop env name [0..<2] = Some g'"
    by (simp split: if_splits)
  ultimately show ?thesis by (auto dest: fastembed_loop_probe)
next
  case None
  with assms have "try_sentence_transformer env = Inr g \<or> try_transformers env = Inr g"
    by (auto simp: initialize_model_def split: if_splits option.splits sum.splits)
  then show ?thesis
    by (auto dest: try_sentence_transformer_probe try_transformers_probe)
qed

lemma init_probe:
  "EmbeddingGenerator_init env name fe = Inr g
   \<Longrightarrow> \<exists>v vs. run_model g [pystr ''test''] = Inr (v # vs) \<and> embedding_dim g = length v"
  by (auto simp: EmbeddingGenerator_init_def Let_def dest: initialize_model_probe)

subsection \<open>One embedded chunk per chunk\<close>

lemma generate_embeddings_Inr:
  assumes "generate_embeddings self chunks = Inr out" and "chunks \<noteq> []"
  shows "\<exists>vs. run_model self (map content chunks) = Inr vs
           \<and> out = map (\<lambda>(c, e). \<lparr>chunk = c, embedding = e, embedding_model = model_name self\<rparr>)
                     (zip chunks vs)"
  using assms by (auto simp: generate_embeddings_def Let_def split: sum.splits)

lemma map_chunk_zip:
  "length vs = length cs
   \<Longrightarrow> map chunk (map (\<lambda>(c, e). \<lparr>chunk = c, embedding = e, embedding_model = n\<rparr>) (zip cs vs)) = cs"
  by (induction cs vs rule: list_induct2') auto

lemma generate_embeddings_chunks:
  assumes one_each: "\<And>texts vs. run_model self texts = Inr vs \<Longrightarrow> length vs = length texts"
    and out: "generate_embeddings self chunks = Inr out"
  shows "map chunk out = chunks"
proof (cases "chunks = []")
  case True
  with out show ?thesis by (simp add: generate_embeddings_def)
next
  case False
  from generate_embeddings_Inr [OF out False] obtain vs
    where vs: "run_model self (map content chunks) = Inr vs"
      and o: "out = map (\<lambda>(c, e). \<lparr>chunk = c, embedding = e, embedding_model = model_name self\<rparr>)
                     (zip chunks vs)"
    by blast
  from one_each [OF vs] have "length vs = length chunks" by simp
  then show ?thesis unfolding o by (rule map_chunk_zip)
qed

text \<open>
  Claim C3. Let the generator come from its constructor, over a backend that returns one
  vector per text, all of one width. Then \<open>generate_embeddings\<close> of the empty list is the
  empty list, and for every list of chunks it either raises what the backend call raises,
  or returns one embedded chunk per input chunk, in the same order, each with a vector
  whose length is \<open>get_embedding_dimension()\<close>.
\<close>

theorem generate_embeddings_one_per_chunk:
  assumes init: "EmbeddingGenerator_init env name fastembed = Inr self"
    and one_each: "\<And>texts vs. run_model self texts = Inr vs \<Longrightarrow> length vs = length texts"
    and width: "\<And>texts vs texts' vs'.
                  run_model self texts = Inr vs \<Longrightarrow> run_model self texts' = Inr vs'
                  \<Longrightarrow> \<forall>v\<in>set vs. \<forall>v'\<in>set vs'. length v = length v'"
  shows "generate_embeddings self [] = Inr []
         \<and> (case generate_embeddings self chunks of
               Inr out \<Rightarrow>
                 length out = length chunks \<and> map chunk out = chunks
                 \<and> (\<forall>e\<in>set out. length (embedding e) = get_embedding_dimension self)
             | Inl e \<Rightarrow> chunks \<noteq> [] \<and> run_model self (map content chunks) = Inl e)"
proof (intro conjI)
  show "generate_embeddings self [] = Inr []"
    by (simp add: generate_embeddings_def)
next
  show "case generate_embeddings self chunks of
          Inr out \<Rightarrow>
            length out = length chunks \<and> map chunk out = chunks
            \<and> (\<forall>e\<in>set out. length (embedding e) = get_embedding_dimension self)
        | Inl e \<Rightarrow> chunks \<noteq> [] \<and> run_model self (map content chunks) = Inl e"
  proof (cases "generate_embeddings self chunks")
    case (Inl e)
    then show ?thesis
      by (auto simp: generate_embeddings_def Let_def split: if_splits sum.splits)
  next
    case (Inr out)
    have chunks: "map chunk out = chunks"
      by (rule generate_embeddings_chunks [OF one_each Inr])
    then have len: "length out = length chunks"
      by (metis length_map)
    have dims: "\<forall>e\<in>set out. length (embedding e) = get_embedding_dimension self"
    proof (cases "chunks = []")
      case True
      with Inr show ?thesis by (simp add: generate_embeddings_def)
    next
      case False
      from generate_embeddings_Inr [OF Inr False] obtain vs
        where vs: "run_model self (map content chunks) = Inr vs"
          and o: "out = map (\<lambda>(c, e). \<lparr>chunk = c, embedding = e, embedding_model = model_name self\<rparr>)
                         (zip chunks vs)"
        by blast
      from init_probe [OF init] obtain p ps
        where probe: "run_model self [pystr ''test''] = Inr (p # ps)"
          and dim: "embedding_dim self = length p"
        by blast
      have "\<forall>v\<in>set vs. length v = length p"
        using width [OF vs probe] by simp
      then show ?thesis
        unfolding o get_embedding_dimension_def dim
        by (auto dest: set_zip_rightD)
    qed
    from Inr len chunks dims show ?thesis by simp
  qed
qed

lemma host0_init:
  "EmbeddingGenerator_init host0 (pystr ''BAAI/bge-small-en-v1.5'') None = Inr generator0"
  by (simp add: EmbeddingGenerator_init_def initialize_model_def host0_def generator0_def
        try_fastembed_def first_len_def call_embed_def length_model_def pystr_def Let_def
        upt_rec [of 0])

lemma generator0_run:
  "run_model generator0 texts = Inr (map (\<lambda>t. [real (length t), 1]) texts)"
  by (simp add: run_model_def generator0_def call_embed_def length_model_def)

theorem generate_embeddings_one_per_chunk_witness:
  "\<exists>out. generate_embeddings generator0 [chunk_c1, chunk_c1] = Inr out
     \<and> length out = 2 \<and> map chunk out = [chunk_c1, chunk_c1]
     \<and> (\<forall>e\<in>set out. length (embedding e) = 2)"
proof -
  have one_each: "\<And>texts vs. run_model generator0 texts = Inr vs \<Longrightarrow> length vs = length texts"
    by (auto simp: generator0_run)
  have width: "\<And>texts vs texts' vs'.
                 run_model generator0 texts = Inr vs \<Longrightarrow> run_model generator0 texts' = Inr vs'
                 \<Longrightarrow> \<forall>v\<in>set vs. \<forall>v'\<in>set vs'. length v = length v'"
    by (auto simp: generator0_run)
  have ran: "\<exists>out. generate_embeddings generator0 [chunk_c1, chunk_c1] = Inr out"
    by (simp add: generate_embeddings_def generator0_run)
  have dim: "get_embedding_dimension generator0 = 2"
    by (simp add: get_embedding_dimension_def generator0_def)
  show ?thesis
    using generate_embeddings_one_per_chunk
            [OF host0_init one_each width, where chunks = "[chunk_c1, chunk_c1]"] ran dim
    by auto
qed

subsection \<open>Batches and sub-batches\<close>

lemma slice_take_drop: "slice xs a (a + m) = take m (drop a xs)"
  by (simp add: slice_def drop_take)

lemma concat_slices:
  "concat (map (\<lambda>k. slice xs (k * m) (k * m + m)) [0..<c]) = take (c * m) xs"
proof (induction c)
  case 0
  then show ?case by simp
next
  case (Suc c)
  have "take (c * m) xs @ slice xs (c * m) (c * m + m) = take (c * m + m) xs"
    by (simp only: slice_take_drop take_add)
  with Suc show ?case by (simp add: add.commute)
qed

lemma ceil_div_covers: "0 < m \<Longrightarrow> n \<le> ((n + m - 1) div m) * (m::nat)"
proof -
  assume m: "0 < m"
  have "n + m - 1 = ((n + m - 1) div m) * m + (n + m - 1) mod m" by simp
  moreover have "(n + m - 1) mod m < m" using m by simp
  ultimately show ?thesis by linarith
qed

lemma below_ceil_div: "0 < m \<Longrightarrow> k < (n + m - 1) div m \<Longrightarrow> k * m < (n::nat)"
proof -
  assume m: "0 < m" and k: "k < (n + m - 1) div m"
  then have "Suc k \<le> (n + m - 1) div m" by simp
  then have "Suc k * m \<le> ((n + m - 1) div m) * m" by (rule mult_le_mono1)
  also have "\<dots> \<le> n + m - 1" by simp
  finally show ?thesis using m by simp
qed

lemma sub_batches_partition:
  assumes "0 < batch_size"
  shows "\<exists>subs. sub_batches chunk_batch batch_size = Inr subs
           \<and> concat subs = chunk_batch
           \<and> (\<forall>s\<in>set subs. s \<noteq> [] \<and> int (length s) \<le> batch_size)"
proof -
  let ?m = "nat batch_size"
  let ?n = "length chunk_batch"
  let ?c = "(?n + ?m - 1) div ?m"
  let ?subs = "map (\<lambda>k. slice chunk_batch (k * ?m) (k * ?m + ?m)) [0..<?c]"
  from assms have m: "0 < ?m" by simp
  have eq: "sub_batches chunk_batch batch_size = Inr ?subs"
    using assms by (simp add: sub_batches_def range_step_def comp_def)
  have "concat ?subs = take (?c * ?m) chunk_batch"
    by (rule concat_slices)
  also have "\<dots> = chunk_batch"
    using ceil_div_covers [OF m, of ?n] by simp
  finally have cat: "concat ?subs = chunk_batch" .
  have each: "\<forall>s\<in>set ?subs. s \<noteq> [] \<and> int (length s) \<le> batch_size"
  proof
    fix s assume "s \<in> set ?subs"
    then obtain k where k: "k < ?c" and s: "s = slice chunk_batch (k * ?m) (k * ?m + ?m)"
      by auto
    from below_ceil_div [OF m k] have "k * ?m < ?n" .
    then show "s \<noteq> [] \<and> int (length s) \<le> batch_size"
      using m unfolding s slice_take_drop by auto
  qed
  from eq cat each show ?thesis by blast
qed

lemma embed_sub_batches_Inr:
  "embed_sub_batches self subs = Inr out
   \<Longrightarrow> \<exists>outs. list_all2 (\<lambda>s r. generate_embeddings self s = Inr r) subs outs \<and> out = concat outs"
proof (induction subs arbitrary: out)
  case Nil
  then show ?case by simp
next
  case (Cons s subs)
  from Cons.prems obtain r rest
    where r: "generate_embeddings self s = Inr r"
      and rest: "embed_sub_batches self subs = Inr rest"
      and out: "out = r @ rest"
    by (auto split: sum.splits)
  from Cons.IH [OF rest] obtain outs
    where "list_all2 (\<lambda>s r. generate_embeddings self s = Inr r) subs outs" "rest = concat outs"
    by blast
  with r out have "list_all2 (\<lambda>s r. generate_embeddings self s = Inr r) (s # subs) (r # outs)
                   \<and> out = concat (r # outs)"
    by simp
  then show ?case by blast
qed

lemma embed_sub_batches_Inl:
  "embed_sub_batches self subs = Inl e \<Longrightarrow> \<exists>s\<in>set subs. generate_embeddings self s = Inl e"
  by (induction subs) (auto split: sum.splits)

lemma delegated_chunks:
  assumes one_each: "\<And>texts vs. run_model self texts = Inr vs \<Longrightarrow> length vs = length texts"
  shows "list_all2 (\<lambda>s r. generate_embeddings self s = Inr r) subs outs
         \<Longrightarrow> map chunk (concat outs) = concat subs"
proof (induction subs outs rule: list_all2_induct)
  case Nil
  then show ?case by simp
next
  case (Cons s subs r outs)
  have "map chunk r = s"
    by (rule generate_embeddings_chunks [OF one_each Cons.hyps(1)])
  with Cons.IH show ?case by simp
qed

lemma embed_batch_Inr:
  "embed_batch self batch_size b = Inr out \<Longrightarrow> delegated self batch_size b out"
  unfolding embed_batch_def
  by (auto split: sum.splits dest: embed_sub_batches_Inr)

lemma batch_generate_Inr:
  "batch_generate_embeddings self batches batch_size = Inr out
   \<Longrightarrow> list_all2 (delegated self batch_size) batches out"
proof (induction batches arbitrary: out)
  case Nil
  then show ?case by simp
next
  case (Cons b batches)
  from Cons.prems obtain r rest
    where r: "embed_batch self batch_size b = Inr r"
      and rest: "batch_generate_embeddings self batches batch_size = Inr rest"
      and out: "out = r # rest"
    by (auto split: sum.splits)
  from embed_batch_Inr [OF r] Cons.IH [OF rest] out show ?case by simp
qed

lemma batch_generate_Inl:
  assumes "0 < batch_size"
  shows "batch_generate_embeddings self batches batch_size = Inl e
   \<Longrightarrow> \<exists>b\<in>set batches. \<exists>subs. sub_batches b batch_size = Inr subs
          \<and> (\<exists>s\<in>set subs. generate_embeddings self s = Inl e)"
proof (induction batches)
  case Nil
  then show ?case by simp
next
  case (Cons b batches)
  obtain subs where subs: "sub_batches b batch_size = Inr subs"
    using sub_batches_partition [OF assms] by blast
  show ?case
  proof (cases "embed_batch self batch_size b")
    case (Inl e')
    with Cons.prems have "e' = e" by simp
    with Inl subs have "\<exists>s\<in>set subs. generate_embeddings self s = Inl e"
      by (auto simp: embed_batch_def dest: embed_sub_batches_Inl)
    with subs show ?thesis by auto
  next
    case (Inr r)
    with Cons.prems have "batch_generate_embeddings self batches batch_size = Inl e"
      by (auto split: sum.splits)
    from Cons.IH [OF this] show ?thesis by auto
  qed
qed

lemma delegated_grouping:
  assumes one_each: "\<And>texts vs. run_model self texts = Inr vs \<Longrightarrow> length vs = length texts"
    and pos: "0 < batch_size"
  shows "list_all2 (delegated self batch_size) batches out \<Longrightarrow> map (map chunk) out = batches"
proof (induction batches out rule: list_all2_induct)
  case Nil
  then show ?case by simp
next
  case (Cons b batches r out)
  from Cons.hyps(1) obtain subs outs
    where subs: "sub_batches b batch_size = Inr subs"
      and all: "list_all2 (\<lambda>s r. generate_embeddings self s = Inr r) subs outs"
      and r: "r = concat outs"
    by blast
  from sub_batches_partition [OF pos, of b] subs have "concat subs = b" by auto
  with delegated_chunks [OF one_each all] r have "map chunk r = b" by simp
  with Cons.IH show ?case by simp
qed

text \<open>
  Claim C7. Let \<open>batch_size > 0\<close>, over a backend that returns one vector per text. Every
  input batch is cut into consecutive, non-empty sub-batches of at most \<open>batch_size\<close>
  chunks whose concatenation is the batch. \<open>batch_generate_embeddings\<close> either raises what
  \<open>generate_embeddings\<close> raises on one of these sub-batches, or returns one output batch
  per input batch, each the concatenation of the results of \<open>generate_embeddings\<close> on the
  sub-batches of its input batch, with the chunks of every batch in their input order.
\<close>

theorem batch_generate_embeddings_partitions:
  assumes pos: "0 < batch_size"
    and one_each: "\<And>texts vs. run_model self texts = Inr vs \<Longrightarrow> length vs = length texts"
  shows "(\<forall>b\<in>set chunks_batches.
            \<exists>subs. sub_batches b batch_size = Inr subs \<and> concat subs = b
              \<and> (\<forall>s\<in>set subs. s \<noteq> [] \<and> int (length s) \<le> batch_size))
         \<and> (case batch_generate_embeddings self chunks_batches batch_size of
               Inr out \<Rightarrow>
                 length out = length chunks_batches
                 \<and> list_all2 (delegated self batch_size) chunks_batches out
                 \<and> map (map chunk) out = chunks_batches
             | Inl e \<Rightarrow>
                 \<exists>b\<in>set chunks_batches. \<exists>subs. sub_batches b batch_size = Inr subs
                   \<and> (\<exists>s\<in>set subs. generate_embeddings self s = Inl e))"
proof (intro conjI ballI)
  fix b
  show "\<exists>subs. sub_batches b batch_size = Inr subs \<and> concat subs = b
          \<and> (\<forall>s\<in>set subs. s \<noteq> [] \<and> int (length s) \<le> batch_size)"
    by (rule sub_batches_partition [OF pos])
next
  show "case batch_generate_embeddings self chunks_batches batch_size of
          Inr out \<Rightarrow>
            length out = length chunks_batches
            \<and> list_all2 (delegated self batch_size) chunks_batches out
            \<and> map (map chunk) out = chunks_batches
        | Inl e \<Rightarrow>
            \<exists>b\<in>set chunks_batches. \<exists>subs. sub_batches b batch_size = Inr subs
              \<and> (\<exists>s\<in>set subs. generate_embeddings self s = Inl e)"
  proof (cases "batch_generate_embeddings self chunks_batches batch_size")
    case (Inl e)
    with batch_generate_Inl [OF pos Inl] show ?thesis by simp
  next
    case (Inr out)
    have d: "list_all2 (delegated self batch_size) chunks_batches out"
      by (rule batch_generate_Inr [OF Inr])
    have g: "map (map chunk) out = chunks_batches"
      by (rule delegated_grouping [OF one_each pos d])
    from d have "length out = length chunks_batches"
      by (simp add: list_all2_lengthD)
    with Inr d g show ?thesis by simp
  qed
qed

lemma three_chunks_sub_batches:
  "sub_batches [chunk_c1, chunk_c1, chunk_c1] 2 = Inr [[chunk_c1, chunk_c1], [chunk_c1]]"
  by (simp add: sub_batches_def range_step_def slice_def upt_rec [of 0] upt_rec [of "Suc 0"])

lemma three_chunks_embedded:
  "\<exists>out. batch_generate_embeddings generator0 [[chunk_c1, chunk_c1, chunk_c1]] 2 = Inr out"
  by (simp add: embed_batch_def three_chunks_sub_batches generate_embeddings_def generator0_run)

theorem batch_generate_embeddings_partitions_witness:
  "sub_batches [chunk_c1, chunk_c1, chunk_c1] 2 = Inr [[chunk_c1, chunk_c1], [chunk_c1]]
   \<and> (\<exists>out. batch_generate_embeddings generator0 [[chunk_c1, chunk_c1, chunk_c1]] 2 = Inr out
         \<and> length out = 1
         \<and> map (map chunk) out = [[chunk_c1, chunk_c1, chunk_c1]])"
proof -
  have pos: "(0::int) < 2" by simp
  have one_each: "\<And>texts vs. run_model generator0 texts = Inr vs \<Longrightarrow> length vs = length texts"
    by (auto simp: generator0_run)
  obtain out
    where out: "batch_generate_embeddings generator0 [[chunk_c1, chunk_c1, chunk_c1]] 2 = Inr out"
    using three_chunks_embedded by blast
  have grouped: "length out = 1 \<and> map (map chunk) out = [[chunk_c1, chunk_c1, chunk_c1]]"
    using batch_generate_embeddings_partitions
            [where self = generator0 and batch_size = 2
               and chunks_batches = "[[chunk_c1, chunk_c1, chunk_c1]]", OF pos one_each]
    unfolding out by simp
  from out grouped
  have "\<exists>out. batch_generate_embeddings generator0 [[chunk_c1, chunk_c1, chunk_c1]] 2 = Inr out
          \<and> length out = 1
          \<and> map (map chunk) out = [[chunk_c1, chunk_c1, chunk_c1]]"
    by (intro exI [where x = out] conjI) (rule out, simp_all)
  with three_chunks_sub_batches show ?thesis
    by (rule conjI)
qed

end
